theory Spec2Isabelle
  imports Main
begin

section \<open>Shared schema (shared/schema.ts)\<close>

text \<open>
  Strings are \<open>string\<close>; a \<open>Date\<close> is its number of milliseconds since the epoch
  (a \<open>nat\<close>). The field \<open>id\<close> of the source is written \<open>id'\<close> (\<open>id\<close> is the
  identity function of HOL). \<open>UserPublic\<close> is \<open>User\<close> without \<open>password\<close>, so \<open>User\<close>
  is the record extension of \<open>UserPublic\<close> by that one field. The fields of
  \<open>RefreshToken\<close> carry the prefix \<open>rt_\<close>, since \<open>id\<close> and \<open>createdAt\<close> occur in both
  interfaces.
\<close>

datatype UserRoleType = ADMIN | MEMBER

record UserPublic =
  id' :: string
  email :: string
  username :: string
  role :: UserRoleType
  firstName :: string
  lastName :: string
  createdAt :: nat

record User = UserPublic +
  password :: string

record RefreshToken =
  rt_id :: string
  rt_userId :: string
  rt_token :: string
  rt_expiresAt :: nat
  rt_createdAt :: nat

section \<open>JavaScript values the code relies on\<close>

text \<open>
  A JavaScript \<open>Map\<close> with string keys keeps its entries in insertion order, one entry per
  key: \<open>set\<close> on a present key replaces the value in place, on an absent key it appends;
  \<open>delete\<close> reports whether the key was present; \<open>values()\<close> lists the values in
  insertion order.
\<close>

type_synonym 'v JsMap = "(string \<times> 'v) list"

definition Map_get :: "'v JsMap \<Rightarrow> string \<Rightarrow> 'v option" where
  "Map_get m k = map_of m k"

fun Map_set :: "string \<Rightarrow> 'v \<Rightarrow> 'v JsMap \<Rightarrow> 'v JsMap" where
  "Map_set k v [] = [(k, v)]"
| "Map_set k v ((k', v') # m) =
     (if k' = k then (k, v) # m else (k', v') # Map_set k v m)"

definition Map_delete :: "string \<Rightarrow> 'v JsMap \<Rightarrow> bool \<times> 'v JsMap" where
  "Map_delete k m = (k \<in> set (map fst m), filter (\<lambda>e. fst e \<noteq> k) m)"

definition Map_values :: "'v JsMap \<Rightarrow> 'v list" where
  "Map_values m = map snd m"

definition startsWith :: "string \<Rightarrow> string \<Rightarrow> bool" where
  "startsWith s p = (take (length p) s = p)"

definition substring :: "string \<Rightarrow> nat \<Rightarrow> string" where
  "substring s n = drop n s"

section \<open>The libraries and the environment\<close>

text \<open>
  The packages \<open>jsonwebtoken\<close>, \<open>bcryptjs\<close>, \<open>crypto\<close> and \<open>zod\<close>, the JavaScript
  runtime's string and date functions and the process environment are not part of the
  repository. The code is modelled over any implementation of them, a record \<open>L\<close> of
  the operations the code calls:
  \<^item> \<open>jwt_sign L payload secret expiresIn now\<close> is \<open>jwt.sign\<close> called at clock \<open>now\<close>
    (milliseconds), \<open>expiresIn\<close> in seconds;
  \<^item> \<open>jwt_verify L token secret now\<close> is \<open>jwt.verify\<close> called at clock \<open>now\<close>: the decoded
    claims, or the error it throws;
  \<^item> \<open>bcrypt_hash L plaintext rounds r\<close> is \<open>bcrypt.hash\<close>, \<open>r\<close> the randomness of its salt;
  \<^item> \<open>bcrypt_compare L plaintext hash\<close> is \<open>bcrypt.compare\<close>;
  \<^item> \<open>randomUUID L r\<close> is \<open>crypto.randomUUID\<close>, \<open>r\<close> the randomness it draws;
  \<^item> \<open>zod_email L s\<close> is the test of \<open>z.string().email()\<close>;
  \<^item> \<open>toLowerCase L s\<close> is \<open>String.prototype.toLowerCase\<close>, which folds every cased
    letter of Unicode;
  \<^item> \<open>date_addDays L t n\<close> is the time of the \<open>Date\<close> \<open>d\<close> of time \<open>t\<close> after
    \<open>d.setDate(d.getDate() + n)\<close>: \<open>n\<close> calendar days on in the server's local time, which
    is \<open>n\<close> times 24 hours only when the local clock is not shifted in between;
  \<^item> \<open>env_SESSION_SECRET L\<close> and \<open>env_NODE_ENV L\<close> are the two variables of
    \<open>process.env\<close> the code reads.

  A request reads the clock once: \<open>now\<close> stands for every \<open>new Date()\<close> of its handler
  and for the clock \<open>jwt.sign\<close> and \<open>jwt.verify\<close> read. The decoded claims are typed as
  the source casts them: the payload the issuer signs (\<open>userId\<close>, and \<open>type\<close> for a refresh
  token, here \<open>tokenType\<close>) with the stamps \<open>iat\<close> and \<open>exp\<close> (here \<open>expiry\<close>), both in seconds.
  The lifetimes "15m" and "7d" are \<open>15 * 60\<close> and \<open>7 * 24 * 60 * 60\<close> seconds.
\<close>

record JwtPayload =
  userId :: string
  tokenType :: "string option"

record JwtClaims = JwtPayload +
  iat :: nat
  expiry :: nat

datatype JwtError = JsonWebTokenError | TokenExpiredError

record Lib =
  jwt_sign :: "JwtPayload \<Rightarrow> string \<Rightarrow> nat \<Rightarrow> nat \<Rightarrow> string"
  jwt_verify :: "string \<Rightarrow> string \<Rightarrow> nat \<Rightarrow> JwtError + JwtClaims"
  bcrypt_hash :: "string \<Rightarrow> nat \<Rightarrow> nat \<Rightarrow> string"
  bcrypt_compare :: "string \<Rightarrow> string \<Rightarrow> bool"
  randomUUID :: "nat \<Rightarrow> string"
  zod_email :: "string \<Rightarrow> bool"
  toLowerCase :: "string \<Rightarrow> string"
  date_addDays :: "nat \<Rightarrow> nat \<Rightarrow> nat"
  env_SESSION_SECRET :: "string option"
  env_NODE_ENV :: "string option"

section \<open>The credential store (server/storage.ts)\<close>

text \<open>
  \<open>MemStorage\<close> holds the two maps the claims are about and the \<open>initialized\<close> flag (its
  map of tasks plays no part here and is left out). The field \<open>entropy\<close> counts the random
  draws made so far: each call of \<open>randomUUID\<close> or \<open>bcrypt.hash\<close> reads the randomness at
  the counter and advances it. Every method takes the clock \<open>now\<close> of the request and
  returns its result with the store as it leaves it.
\<close>

record MemStorage =
  users :: "User JsMap"
  refreshTokens :: "RefreshToken JsMap"
  initialized :: bool
  entropy :: nat

definition newMemStorage :: MemStorage where
  "newMemStorage = \<lparr>users = [], refreshTokens = [], initialized = False, entropy = 0\<rparr>"

definition ensureInitialized :: "Lib \<Rightarrow> nat \<Rightarrow> MemStorage \<Rightarrow> MemStorage" where
  "ensureInitialized L now st =
     (if initialized st then st
      else
        let hashedPassword = bcrypt_hash L ''admin123'' 10 (entropy st);
            adminUser = \<lparr>id' = randomUUID L (entropy st + 1),
                         email = ''admin@taskflow.com'',
                         username = ''admin'',
                         role = ADMIN,
                         firstName = ''System'',
                         lastName = ''Admin'',
                         createdAt = now,
                         password = hashedPassword\<rparr>
        in st\<lparr>initialized := True,
               users := Map_set (id' adminUser) adminUser (users st),
               entropy := entropy st + 2\<rparr>)"

definition toPublicUser :: "User \<Rightarrow> UserPublic" where
  "toPublicUser user =
     \<lparr>id' = id' user, email = email user, username = username user, role = role user,
      firstName = firstName user, lastName = lastName user, createdAt = createdAt user\<rparr>"

definition getUser :: "Lib \<Rightarrow> nat \<Rightarrow> string \<Rightarrow> MemStorage \<Rightarrow> User option \<times> MemStorage" where
  "getUser L now uid st =
     (let st1 = ensureInitialized L now st in (Map_get (users st1) uid, st1))"

definition getUserByEmail :: "Lib \<Rightarrow> nat \<Rightarrow> string \<Rightarrow> MemStorage \<Rightarrow> User option \<times> MemStorage" where
  "getUserByEmail L now e st =
     (let st1 = ensureInitialized L now st
      in (find (\<lambda>user. toLowerCase L (email user) = toLowerCase L e) (Map_values (users st1)), st1))"

definition getUserByUsername :: "Lib \<Rightarrow> nat \<Rightarrow> string \<Rightarrow> MemStorage \<Rightarrow> User option \<times> MemStorage" where
  "getUserByUsername L now n st =
     (let st1 = ensureInitialized L now st
      in (find (\<lambda>user. toLowerCase L (username user) = toLowerCase L n) (Map_values (users st1)), st1))"

text \<open>
  \<open>createUser\<close> takes the fields of its argument object: email, username, password (the
  hash), first name, last name and role.
\<close>

definition createUser ::
  "Lib \<Rightarrow> nat \<Rightarrow> string \<Rightarrow> string \<Rightarrow> string \<Rightarrow> string \<Rightarrow> string \<Rightarrow> UserRoleType \<Rightarrow> MemStorage
     \<Rightarrow> User \<times> MemStorage" where
  "createUser L now e n pw fn ln r st =
     (let st1 = ensureInitialized L now st;
          user = \<lparr>id' = randomUUID L (entropy st1), email = e, username = n, role = r,
                  firstName = fn, lastName = ln, createdAt = now, password = pw\<rparr>
      in (user, st1\<lparr>users := Map_set (id' user) user (users st1), entropy := entropy st1 + 1\<rparr>))"

definition deleteUser :: "Lib \<Rightarrow> nat \<Rightarrow> string \<Rightarrow> MemStorage \<Rightarrow> bool \<times> MemStorage" where
  "deleteUser L now uid st =
     (let st1 = ensureInitialized L now st;
          (found, us) = Map_delete uid (users st1)
      in (found, st1\<lparr>users := us\<rparr>))"

definition createRefreshToken ::
  "Lib \<Rightarrow> nat \<Rightarrow> string \<Rightarrow> string \<Rightarrow> nat \<Rightarrow> MemStorage \<Rightarrow> RefreshToken \<times> MemStorage" where
  "createRefreshToken L now uid tok expiresAt st =
     (let st1 = ensureInitialized L now st;
          refreshToken = \<lparr>rt_id = randomUUID L (entropy st1), rt_userId = uid, rt_token = tok,
                          rt_expiresAt = expiresAt, rt_createdAt = now\<rparr>
      in (refreshToken,
          st1\<lparr>refreshTokens := Map_set tok refreshToken (refreshTokens st1),
              entropy := entropy st1 + 1\<rparr>))"

definition getRefreshToken ::
  "Lib \<Rightarrow> nat \<Rightarrow> string \<Rightarrow> MemStorage \<Rightarrow> RefreshToken option \<times> MemStorage" where
  "getRefreshToken L now tok st =
     (let st1 = ensureInitialized L now st in (Map_get (refreshTokens st1) tok, st1))"

definition deleteRefreshToken :: "Lib \<Rightarrow> nat \<Rightarrow> string \<Rightarrow> MemStorage \<Rightarrow> bool \<times> MemStorage" where
  "deleteRefreshToken L now tok st =
     (let st1 = ensureInitialized L now st;
          (found, ts) = Map_delete tok (refreshTokens st1)
      in (found, st1\<lparr>refreshTokens := ts\<rparr>))"

text \<open>The \<open>for\<close> loop of \<open>deleteRefreshTokensByUser\<close> over the tokens selected for deletion.\<close>

fun deleteEach :: "RefreshToken list \<Rightarrow> RefreshToken JsMap \<Rightarrow> RefreshToken JsMap" where
  "deleteEach [] m = m"
| "deleteEach (t # ts) m = deleteEach ts (snd (Map_delete (rt_token t) m))"

definition deleteRefreshTokensByUser ::
  "Lib \<Rightarrow> nat \<Rightarrow> string \<Rightarrow> MemStorage \<Rightarrow> bool \<times> MemStorage" where
  "deleteRefreshTokensByUser L now uid st =
     (let st1 = ensureInitialized L now st;
          tokensToDelete = filter (\<lambda>t. rt_userId t = uid) (Map_values (refreshTokens st1))
      in (True, st1\<lparr>refreshTokens := deleteEach tokensToDelete (refreshTokens st1)\<rparr>))"

section \<open>Requests and responses\<close>

text \<open>
  Of a request the code reads the \<open>Authorization\<close> header, the \<open>refreshToken\<close> cookie,
  the JSON body (its string fields, by name), the route parameter \<open>id\<close> and the client's
  address (the rate limiter's key); \<open>authenticate\<close> writes \<open>user\<close>. A response is the status,
  the JSON body and the cookie operations; \<open>res.json\<close> without \<open>res.status\<close> has status 200.
\<close>

record AuthRequest =
  headers_authorization :: "string option"
  cookies_refreshToken :: "string option"
  body :: "(string \<times> string) list"
  params_id :: string
  ip :: string
  user :: "UserPublic option"

record CookieOptions =
  httpOnly :: bool
  secure :: bool
  sameSite :: string
  maxAge :: nat

datatype CookieOp = SetCookie string string CookieOptions | ClearCookie string

datatype Json =
    MessageJson string
  | ValidationJson string "(string \<times> string) list"
  | AuthJson UserPublic string
  | AccessTokenJson string
  | UserJson "UserPublic option"

record Response =
  status :: nat
  json :: Json
  cookies :: "CookieOp list"

text \<open>What a middleware does with a request: it answers, or it calls \<open>next()\<close>.\<close>

datatype Outcome = Respond Response | Next AuthRequest

definition respond :: "nat \<Rightarrow> string \<Rightarrow> Response" where
  "respond code msg = \<lparr>status = code, json = MessageJson msg, cookies = []\<rparr>"

section \<open>Error handler (server/middleware/errorHandler.ts)\<close>

datatype Thrown = AppError nat string | ZodError "(string \<times> string) list" | OtherError

definition errorHandler :: "Thrown \<Rightarrow> Response" where
  "errorHandler err =
     (case err of
        AppError statusCode msg \<Rightarrow> respond statusCode msg
      | ZodError errors \<Rightarrow>
          \<lparr>status = 400, json = ValidationJson ''Validation error'' errors, cookies = []\<rparr>
      | OtherError \<Rightarrow> respond 500 ''Internal server error'')"

text \<open>
  Every route handler is \<open>try { ... } catch (error) { next(error) }\<close> with \<open>errorHandler\<close>
  installed last: what the body throws becomes the response \<open>errorHandler\<close> builds, and
  the store stays as the body left it.
\<close>

definition handled :: "(Thrown + Response) \<times> MemStorage \<Rightarrow> Response \<times> MemStorage" where
  "handled r = (case fst r of Inl err \<Rightarrow> (errorHandler err, snd r) | Inr res \<Rightarrow> (res, snd r))"

section \<open>Token issuer, auth middleware and role guard (server/middleware/auth.ts)\<close>

definition JWT_SECRET :: "Lib \<Rightarrow> string" where
  "JWT_SECRET L =
     (case env_SESSION_SECRET L of
        None \<Rightarrow> ''your-super-secret-jwt-key-change-in-production''
      | Some s \<Rightarrow> if s = [] then ''your-super-secret-jwt-key-change-in-production'' else s)"

definition generateAccessToken :: "Lib \<Rightarrow> nat \<Rightarrow> string \<Rightarrow> string" where
  "generateAccessToken L now uid =
     jwt_sign L \<lparr>userId = uid, tokenType = None\<rparr> (JWT_SECRET L) (15 * 60) now"

definition generateRefreshToken :: "Lib \<Rightarrow> nat \<Rightarrow> string \<Rightarrow> string" where
  "generateRefreshToken L now uid =
     jwt_sign L \<lparr>userId = uid, tokenType = Some ''refresh''\<rparr> (JWT_SECRET L) (7 * 24 * 60 * 60) now"

definition verifyToken :: "Lib \<Rightarrow> nat \<Rightarrow> string \<Rightarrow> JwtClaims option" where
  "verifyToken L now token =
     (case jwt_verify L token (JWT_SECRET L) now of
        Inr decoded \<Rightarrow> Some decoded
      | Inl err \<Rightarrow> None)"

text \<open>
  \<open>authenticate\<close>. A header that is absent or empty is falsy. None of the calls in the
  \<open>try\<close> block throws in this model, so the \<open>catch\<close> (401 "Authentication failed") has no
  branch of its own.
\<close>

definition authenticate :: "Lib \<Rightarrow> nat \<Rightarrow> AuthRequest \<Rightarrow> MemStorage \<Rightarrow> Outcome \<times> MemStorage" where
  "authenticate L now req st =
     (case headers_authorization req of
        None \<Rightarrow> (Respond (respond 401 ''No token provided''), st)
      | Some authHeader \<Rightarrow>
          if authHeader = [] \<or> \<not> startsWith authHeader ''Bearer ''
          then (Respond (respond 401 ''No token provided''), st)
          else
            (case verifyToken L now (substring authHeader 7) of
               None \<Rightarrow> (Respond (respond 401 ''Invalid or expired token''), st)
             | Some decoded \<Rightarrow>
                 (case getUser L now (userId decoded) st of
                    (None, st1) \<Rightarrow> (Respond (respond 401 ''User not found''), st1)
                  | (Some u, st1) \<Rightarrow>
                      (Next (req\<lparr>user :=
                         Some \<lparr>id' = id' u, email = email u, username = username u,
                               role = role u, firstName = firstName u,
                               lastName = lastName u, createdAt = createdAt u\<rparr>\<rparr>), st1))))"

definition requireRole :: "UserRoleType list \<Rightarrow> AuthRequest \<Rightarrow> Outcome" where
  "requireRole roles req =
     (case user req of
        None \<Rightarrow> Respond (respond 401 ''Not authenticated'')
      | Some u \<Rightarrow>
          if role u \<notin> set roles then Respond (respond 403 ''Insufficient permissions'')
          else Next req)"

definition requireAdmin :: "AuthRequest \<Rightarrow> Outcome" where
  "requireAdmin req =
     (case user req of
        None \<Rightarrow> Respond (respond 401 ''Not authenticated'')
      | Some u \<Rightarrow>
          if role u \<noteq> ADMIN then Respond (respond 403 ''Admin access required'')
          else Next req)"

section \<open>Input schemas (shared/schema.ts)\<close>

text \<open>
  A field checked by \<open>z.string()\<close> with one refinement: an absent field gives the issue
  "Required", a present one that fails the test gives the schema's message. \<open>parse\<close>
  throws a \<open>ZodError\<close> with the issues of all fields, or returns the parsed object.
  A field that is absent or not a string is absent from the body's list; \<open>min\<close> counts
  the characters of the list.
\<close>

definition zString :: "(string \<times> string) list \<Rightarrow> string \<Rightarrow> (string \<Rightarrow> bool) \<Rightarrow> string
    \<Rightarrow> (string \<times> string) list" where
  "zString b field ok msg =
     (case map_of b field of
        None \<Rightarrow> [(field, ''Required'')]
      | Some v \<Rightarrow> if ok v then [] else [(field, msg)])"

record RegisterInput =
  reg_email :: string
  reg_username :: string
  reg_password :: string
  reg_firstName :: string
  reg_lastName :: string

record LoginInput =
  login_email :: string
  login_password :: string

definition registerSchema_parse :: "Lib \<Rightarrow> (string \<times> string) list \<Rightarrow> Thrown + RegisterInput" where
  "registerSchema_parse L b =
     (let issues =
            zString b ''email'' (zod_email L) ''Invalid email address'' @
            zString b ''username'' (\<lambda>v. 3 \<le> length v) ''Username must be at least 3 characters'' @
            zString b ''password'' (\<lambda>v. 8 \<le> length v) ''Password must be at least 8 characters'' @
            zString b ''firstName'' (\<lambda>v. 1 \<le> length v) ''First name is required'' @
            zString b ''lastName'' (\<lambda>v. 1 \<le> length v) ''Last name is required''
      in case (map_of b ''email'', map_of b ''username'', map_of b ''password'',
               map_of b ''firstName'', map_of b ''lastName'') of
           (Some e, Some n, Some pw, Some fn, Some ln) \<Rightarrow>
             if issues = []
             then Inr \<lparr>reg_email = e, reg_username = n, reg_password = pw,
                       reg_firstName = fn, reg_lastName = ln\<rparr>
             else Inl (ZodError issues)
         | _ \<Rightarrow> Inl (ZodError issues))"

definition loginSchema_parse :: "Lib \<Rightarrow> (string \<times> string) list \<Rightarrow> Thrown + LoginInput" where
  "loginSchema_parse L b =
     (let issues =
            zString b ''email'' (zod_email L) ''Invalid email address'' @
            zString b ''password'' (\<lambda>v. 1 \<le> length v) ''Password is required''
      in case (map_of b ''email'', map_of b ''password'') of
           (Some e, Some pw) \<Rightarrow>
             if issues = [] then Inr \<lparr>login_email = e, login_password = pw\<rparr>
             else Inl (ZodError issues)
         | _ \<Rightarrow> Inl (ZodError issues))"

section \<open>Auth flow handlers (server/routes.ts)\<close>

text \<open>\<open>expiresAt.setDate(expiresAt.getDate() + 7)\<close> on \<open>expiresAt = new Date()\<close>.\<close>

definition sevenDaysFrom :: "Lib \<Rightarrow> nat \<Rightarrow> nat" where
  "sevenDaysFrom L now = date_addDays L now 7"

definition refreshCookie :: "Lib \<Rightarrow> string \<Rightarrow> CookieOp" where
  "refreshCookie L refreshToken =
     SetCookie ''refreshToken'' refreshToken
       \<lparr>httpOnly = True, secure = (env_NODE_ENV L = Some ''production''),
        sameSite = ''lax'', maxAge = 7 * 24 * 60 * 60 * 1000\<rparr>"

definition register_try :: "Lib \<Rightarrow> nat \<Rightarrow> AuthRequest \<Rightarrow> MemStorage \<Rightarrow> (Thrown + Response) \<times> MemStorage" where
  "register_try L now req st =
     (case registerSchema_parse L (body req) of
        Inl err \<Rightarrow> (Inl err, st)
      | Inr data \<Rightarrow>
          (case getUserByEmail L now (reg_email data) st of
             (Some existingEmail, st1) \<Rightarrow> (Inl (AppError 400 ''Email already registered''), st1)
           | (None, st1) \<Rightarrow>
               (case getUserByUsername L now (reg_username data) st1 of
                  (Some existingUsername, st2) \<Rightarrow> (Inl (AppError 400 ''Username already taken''), st2)
                | (None, st2) \<Rightarrow>
                    let hashedPassword = bcrypt_hash L (reg_password data) 10 (entropy st2);
                        st3 = st2\<lparr>entropy := entropy st2 + 1\<rparr>;
                        (u, st4) = createUser L now (reg_email data) (reg_username data)
                                     hashedPassword (reg_firstName data) (reg_lastName data)
                                     MEMBER st3;
                        accessToken = generateAccessToken L now (id' u);
                        refreshToken = generateRefreshToken L now (id' u);
                        expiresAt = sevenDaysFrom L now;
                        (stored, st5) = createRefreshToken L now (id' u) refreshToken expiresAt st4
                    in (Inr \<lparr>status = 201, json = AuthJson (toPublicUser u) accessToken,
                             cookies = [refreshCookie L refreshToken]\<rparr>, st5))))"

definition login_try :: "Lib \<Rightarrow> nat \<Rightarrow> AuthRequest \<Rightarrow> MemStorage \<Rightarrow> (Thrown + Response) \<times> MemStorage" where
  "login_try L now req st =
     (case loginSchema_parse L (body req) of
        Inl err \<Rightarrow> (Inl err, st)
      | Inr data \<Rightarrow>
          (case getUserByEmail L now (login_email data) st of
             (None, st1) \<Rightarrow> (Inl (AppError 401 ''Invalid email or password''), st1)
           | (Some u, st1) \<Rightarrow>
               if \<not> bcrypt_compare L (login_password data) (password u)
               then (Inl (AppError 401 ''Invalid email or password''), st1)
               else
                 let (deleted, st2) = deleteRefreshTokensByUser L now (id' u) st1;
                     accessToken = generateAccessToken L now (id' u);
                     refreshToken = generateRefreshToken L now (id' u);
                     expiresAt = sevenDaysFrom L now;
                     (stored, st3) = createRefreshToken L now (id' u) refreshToken expiresAt st2
                 in (Inr \<lparr>status = 200, json = AuthJson (toPublicUser u) accessToken,
                          cookies = [refreshCookie L refreshToken]\<rparr>, st3)))"

text \<open>\<open>req.cookies?.refreshToken\<close> is falsy when the cookie is absent or empty.\<close>

definition refresh_try :: "Lib \<Rightarrow> nat \<Rightarrow> AuthRequest \<Rightarrow> MemStorage \<Rightarrow> (Thrown + Response) \<times> MemStorage" where
  "refresh_try L now req st =
     (case cookies_refreshToken req of
        None \<Rightarrow> (Inl (AppError 401 ''No refresh token provided''), st)
      | Some refreshToken \<Rightarrow>
          if refreshToken = [] then (Inl (AppError 401 ''No refresh token provided''), st)
          else
            (case getRefreshToken L now refreshToken st of
               (None, st1) \<Rightarrow> (Inl (AppError 401 ''Invalid refresh token''), st1)
             | (Some storedToken, st1) \<Rightarrow>
                 if now > rt_expiresAt storedToken
                 then (Inl (AppError 401 ''Refresh token expired''),
                       snd (deleteRefreshToken L now refreshToken st1))
                 else
                   (case verifyToken L now refreshToken of
                      None \<Rightarrow> (Inl (AppError 401 ''Invalid refresh token''),
                                snd (deleteRefreshToken L now refreshToken st1))
                    | Some decoded \<Rightarrow>
                        (case getUser L now (userId decoded) st1 of
                           (None, st2) \<Rightarrow> (Inl (AppError 401 ''User not found''), st2)
                         | (Some u, st2) \<Rightarrow>
                             (Inr \<lparr>status = 200,
                                   json = AccessTokenJson (generateAccessToken L now (id' u)),
                                   cookies = []\<rparr>, st2)))))"

text \<open>The body of the logout handler; \<open>authenticate\<close> has run before it.\<close>

definition logout_try :: "Lib \<Rightarrow> nat \<Rightarrow> AuthRequest \<Rightarrow> MemStorage \<Rightarrow> (Thrown + Response) \<times> MemStorage" where
  "logout_try L now req st =
     (let st1 = (case cookies_refreshToken req of
                   None \<Rightarrow> st
                 | Some refreshToken \<Rightarrow>
                     if refreshToken = [] then st
                     else snd (deleteRefreshToken L now refreshToken st));
          st2 = (case user req of
                   None \<Rightarrow> st1
                 | Some u \<Rightarrow> snd (deleteRefreshTokensByUser L now (id' u) st1))
      in (Inr \<lparr>status = 200, json = MessageJson ''Logged out successfully'',
               cookies = [ClearCookie ''refreshToken'']\<rparr>, st2))"

text \<open>The body of \<open>DELETE /api/users/:id\<close>; \<open>authenticate\<close> and \<open>requireAdmin\<close> have run.\<close>

definition deleteUser_try :: "Lib \<Rightarrow> nat \<Rightarrow> AuthRequest \<Rightarrow> MemStorage \<Rightarrow> (Thrown + Response) \<times> MemStorage" where
  "deleteUser_try L now req st =
     (if map_option id' (user req) = Some (params_id req)
      then (Inl (AppError 400 ''Cannot delete your own account''), st)
      else
        (case deleteUser L now (params_id req) st of
           (False, st1) \<Rightarrow> (Inl (AppError 404 ''User not found''), st1)
         | (True, st1) \<Rightarrow>
             (Inr (respond 200 ''User deleted successfully''),
              snd (deleteRefreshTokensByUser L now (params_id req) st1))))"

section \<open>Rate limiter and routes (server/routes.ts)\<close>

text \<open>
  \<open>authLimiter\<close> is \<open>rateLimit\<close> of the package \<open>express-rate-limit\<close> with the options
  below. The package is not part of the repository; it is modelled by its memory store:
  per client (the request's address) a count of hits and the time the count resets.
  A hit in a running window adds one to the count, a hit after the reset time starts a
  window of \<open>windowMs\<close> with count one; a request whose count exceeds \<open>max\<close> is answered
  with status 429 and the configured message, and the next middleware is not called.
\<close>

record RateLimitOptions =
  windowMs :: nat
  maxHits :: nat
  message :: string

definition authLimiter :: RateLimitOptions where
  "authLimiter =
     \<lparr>windowMs = 15 * 60 * 1000, maxHits = 20,
      message = ''Too many requests, please try again later''\<rparr>"

type_synonym LimiterStore = "(nat \<times> nat) JsMap"

definition increment :: "RateLimitOptions \<Rightarrow> nat \<Rightarrow> string \<Rightarrow> LimiterStore \<Rightarrow> nat \<times> LimiterStore" where
  "increment opts now key store =
     (case Map_get store key of
        None \<Rightarrow> (1, Map_set key (1, now + windowMs opts) store)
      | Some (totalHits, resetTime) \<Rightarrow>
          if now < resetTime then (totalHits + 1, Map_set key (totalHits + 1, resetTime) store)
          else (1, Map_set key (1, now + windowMs opts) store))"

definition rateLimit :: "RateLimitOptions \<Rightarrow> nat \<Rightarrow> AuthRequest \<Rightarrow> LimiterStore \<Rightarrow> Outcome \<times> LimiterStore" where
  "rateLimit opts now req store =
     (let (totalHits, store1) = increment opts now (ip req) store
      in if totalHits > maxHits opts then (Respond (respond 429 (message opts)), store1)
         else (Next req, store1))"

text \<open>
  The server: the credential store and the one store of \<open>authLimiter\<close>. A route runs its
  middlewares in the order \<open>registerRoutes\<close> lists them.
\<close>

record Server =
  storage :: MemStorage
  limiter :: LimiterStore

datatype Route =
    POST_auth_register | POST_auth_login | POST_auth_refresh | POST_auth_logout
  | GET_auth_me | DELETE_users_id

definition limited :: "(Lib \<Rightarrow> nat \<Rightarrow> AuthRequest \<Rightarrow> MemStorage \<Rightarrow> (Thrown + Response) \<times> MemStorage)
    \<Rightarrow> Lib \<Rightarrow> nat \<Rightarrow> AuthRequest \<Rightarrow> Server \<Rightarrow> Response \<times> Server" where
  "limited handler L now req srv =
     (case rateLimit authLimiter now req (limiter srv) of
        (Respond res, lim) \<Rightarrow> (res, srv\<lparr>limiter := lim\<rparr>)
      | (Next req1, lim) \<Rightarrow>
          (let (res, st) = handled (handler L now req1 (storage srv))
           in (res, \<lparr>storage = st, limiter = lim\<rparr>)))"

definition app :: "Lib \<Rightarrow> nat \<Rightarrow> Route \<Rightarrow> AuthRequest \<Rightarrow> Server \<Rightarrow> Response \<times> Server" where
  "app L now route req srv =
     (case route of
        POST_auth_register \<Rightarrow> limited register_try L now req srv
      | POST_auth_login \<Rightarrow> limited login_try L now req srv
      | POST_auth_refresh \<Rightarrow> limited refresh_try L now req srv
      | POST_auth_logout \<Rightarrow>
          (case authenticate L now req (storage srv) of
             (Respond res, st) \<Rightarrow> (res, srv\<lparr>storage := st\<rparr>)
           | (Next req1, st) \<Rightarrow>
               (let (res, st1) = handled (logout_try L now req1 st)
                in (res, srv\<lparr>storage := st1\<rparr>)))
      | GET_auth_me \<Rightarrow>
          (case authenticate L now req (storage srv) of
             (Respond res, st) \<Rightarrow> (res, srv\<lparr>storage := st\<rparr>)
           | (Next req1, st) \<Rightarrow>
               (\<lparr>status = 200, json = UserJson (user req1), cookies = []\<rparr>, srv\<lparr>storage := st\<rparr>))
      | DELETE_users_id \<Rightarrow>
          (case authenticate L now req (storage srv) of
             (Respond res, st) \<Rightarrow> (res, srv\<lparr>storage := st\<rparr>)
           | (Next req1, st) \<Rightarrow>
               (case requireAdmin req1 of
                  Respond res \<Rightarrow> (res, srv\<lparr>storage := st\<rparr>)
                | Next req2 \<Rightarrow>
                    (let (res, st1) = handled (deleteUser_try L now req2 st)
                     in (res, srv\<lparr>storage := st1\<rparr>)))))"

section \<open>What the properties speak of\<close>

text \<open>
  The contract of \<open>jsonwebtoken\<close> the token properties rest on: \<open>sign\<close> stamps the
  payload with \<open>iat\<close>, the clock in whole seconds, and \<open>exp = iat + expiresIn\<close>; \<open>verify\<close>
  with the signing secret returns these claims while the clock in whole seconds is below
  \<open>exp\<close>, and throws \<open>TokenExpiredError\<close> from then on.
\<close>

definition jwt_contract :: "Lib \<Rightarrow> bool" where
  "jwt_contract L =
     (\<forall>payload secret expiresIn now t.
        jwt_verify L (jwt_sign L payload secret expiresIn now) secret t =
          (if t div 1000 < now div 1000 + expiresIn
           then Inr \<lparr>userId = userId payload, tokenType = tokenType payload,
                     iat = now div 1000, expiry = now div 1000 + expiresIn\<rparr>
           else Inl TokenExpiredError))"

text \<open>The refresh token rows a user owns, and the store's rows being keyed by their token.\<close>

definition tokensOfUser :: "string \<Rightarrow> MemStorage \<Rightarrow> RefreshToken list" where
  "tokensOfUser uid st = filter (\<lambda>t. rt_userId t = uid) (Map_values (refreshTokens st))"

definition tokensKeyed :: "RefreshToken JsMap \<Rightarrow> bool" where
  "tokensKeyed m = list_all (\<lambda>e. rt_token (snd e) = fst e) m"

text \<open>
  Whether a user of the store has a given email, or username, ignoring case: equal after
  \<open>toLowerCase\<close>, the comparison of \<open>getUserByEmail\<close> and \<open>getUserByUsername\<close>.
\<close>

definition emailTaken :: "Lib \<Rightarrow> string \<Rightarrow> MemStorage \<Rightarrow> bool" where
  "emailTaken L e st =
     list_ex (\<lambda>u. toLowerCase L (email u) = toLowerCase L e) (Map_values (users st))"

definition usernameTaken :: "Lib \<Rightarrow> string \<Rightarrow> MemStorage \<Rightarrow> bool" where
  "usernameTaken L n st =
     list_ex (\<lambda>u. toLowerCase L (username u) = toLowerCase L n) (Map_values (users st))"

text \<open>The routes that \<open>registerRoutes\<close> registers with \<open>authLimiter\<close> in front.\<close>

definition usesAuthLimiter :: "Route \<Rightarrow> bool" where
  "usesAuthLimiter route =
     (case route of
        POST_auth_register \<Rightarrow> True
      | POST_auth_login \<Rightarrow> True
      | POST_auth_refresh \<Rightarrow> True
      | _ \<Rightarrow> False)"

definition limitedHandler ::
  "Route \<Rightarrow> Lib \<Rightarrow> nat \<Rightarrow> AuthRequest \<Rightarrow> MemStorage \<Rightarrow> (Thrown + Response) \<times> MemStorage" where
  "limitedHandler route =
     (case route of
        POST_auth_register \<Rightarrow> register_try
      | POST_auth_login \<Rightarrow> login_try
      | _ \<Rightarrow> refresh_try)"

text \<open>
  A request passed on to its handler by the limiter: the handler's response, the store as
  the handler leaves it, and the limiter's store as given.
\<close>

definition passedOn ::
  "Route \<Rightarrow> Lib \<Rightarrow> nat \<Rightarrow> AuthRequest \<Rightarrow> Server \<Rightarrow> LimiterStore \<Rightarrow> Response \<times> Server" where
  "passedOn route L now req srv lim =
     (fst (handled (limitedHandler route L now req (storage srv))),
      \<lparr>storage = snd (handled (limitedHandler route L now req (storage srv))), limiter = lim\<rparr>)"

text \<open>
  A run of the server: the requests, each with its arrival time and route, served in
  order; the responses in the same order, and the server after the run. Of a run, the
  number of requests a client sent to the routes behind the limiter.
\<close>

fun serverAfter :: "Lib \<Rightarrow> (nat \<times> Route \<times> AuthRequest) list \<Rightarrow> Server \<Rightarrow> Server" where
  "serverAfter L [] srv = srv"
| "serverAfter L ((now, route, req) # evs) srv = serverAfter L evs (snd (app L now route req srv))"

definition hitsOf :: "string \<Rightarrow> (nat \<times> Route \<times> AuthRequest) list \<Rightarrow> nat" where
  "hitsOf client evs =
     length (filter (\<lambda>ev. ip (snd (snd ev)) = client \<and> usesAuthLimiter (fst (snd ev))) evs)"

fun serve :: "Lib \<Rightarrow> (nat \<times> Route \<times> AuthRequest) list \<Rightarrow> Server \<Rightarrow> Response list" where
  "serve L [] srv = []"
| "serve L ((now, route, req) # evs) srv =
     (let (res, srv1) = app L now route req srv in res # serve L evs srv1)"

subsection \<open>A reference implementation of the libraries\<close>

text \<open>
  One implementation of the record \<open>L\<close>, to evaluate the code on concrete requests: a
  server on UTC (a day is 24 hours) whose strings are ASCII. Its
  tokens are the secret, the user id, the type tag and the two time stamps, each field
  length-prefixed or terminated by a dot, the numbers in decimal; a token that is not of
  this form or names another secret is refused.
\<close>

definition digitChar :: "nat \<Rightarrow> char" where
  "digitChar d = ''0123456789'' ! d"

definition digitVal :: "char \<Rightarrow> nat" where
  "digitVal c = length (takeWhile (\<lambda>x. x \<noteq> c) ''0123456789'')"

fun decimal :: "nat \<Rightarrow> string" where
  "decimal n = (if n < 10 then [digitChar n] else decimal (n div 10) @ [digitChar (n mod 10)])"

definition undecimal :: "string \<Rightarrow> nat" where
  "undecimal s = foldl (\<lambda>a c. 10 * a + digitVal c) 0 s"

definition encNat :: "nat \<Rightarrow> string" where
  "encNat n = decimal n @ ''.''"

definition decNat :: "string \<Rightarrow> nat \<times> string" where
  "decNat s =
     (undecimal (takeWhile (\<lambda>c. c \<noteq> CHR ''.'') s), drop 1 (dropWhile (\<lambda>c. c \<noteq> CHR ''.'') s))"

definition encStr :: "string \<Rightarrow> string" where
  "encStr s = encNat (length s) @ s"

definition decStr :: "string \<Rightarrow> string \<times> string" where
  "decStr s = (let (n, r) = decNat s in (take n r, drop n r))"

definition encOpt :: "string option \<Rightarrow> string" where
  "encOpt x = (case x of None \<Rightarrow> ''N'' | Some s \<Rightarrow> ''S'' @ encStr s)"

definition decOpt :: "string \<Rightarrow> string option \<times> string" where
  "decOpt s =
     (if take 1 s = ''S'' then (let (v, r) = decStr (drop 1 s) in (Some v, r))
      else (None, drop 1 s))"

definition refSign :: "JwtPayload \<Rightarrow> string \<Rightarrow> nat \<Rightarrow> nat \<Rightarrow> string" where
  "refSign payload secret expiresIn now =
     encStr secret @ encStr (userId payload) @ encOpt (tokenType payload) @
     encNat (now div 1000) @ encNat (now div 1000 + expiresIn)"

definition refVerify :: "string \<Rightarrow> string \<Rightarrow> nat \<Rightarrow> JwtError + JwtClaims" where
  "refVerify token secret now =
     (let (sec, r1) = decStr token; (uid, r2) = decStr r1; (ty, r3) = decOpt r2;
          (i, r4) = decNat r3; (e, r5) = decNat r4
      in if token \<noteq> encStr sec @ encStr uid @ encOpt ty @ encNat i @ encNat e \<or> sec \<noteq> secret
         then Inl JsonWebTokenError
         else if e \<le> now div 1000 then Inl TokenExpiredError
         else Inr \<lparr>userId = uid, tokenType = ty, iat = i, expiry = e\<rparr>)"

definition lowerChar :: "char \<Rightarrow> char" where
  "lowerChar c =
     (case map_of (zip ''ABCDEFGHIJKLMNOPQRSTUVWXYZ'' ''abcdefghijklmnopqrstuvwxyz'') c of
        Some l \<Rightarrow> l
      | None \<Rightarrow> c)"

definition refLib :: Lib where
  "refLib =
     \<lparr>jwt_sign = refSign, jwt_verify = refVerify,
      bcrypt_hash = (\<lambda>plaintext rounds r. ''$2a$'' @ decimal rounds @ ''$'' @ plaintext),
      bcrypt_compare = (\<lambda>plaintext hash. hash = ''$2a$'' @ decimal 10 @ ''$'' @ plaintext),
      randomUUID = (\<lambda>r. ''uuid-'' @ decimal r),
      zod_email = (\<lambda>s. CHR ''@'' \<in> set s),
      toLowerCase = map lowerChar,
      date_addDays = (\<lambda>t n. t + n * (24 * 60 * 60 * 1000)),
      env_SESSION_SECRET = None,
      env_NODE_ENV = None\<rparr>"

text \<open>A store with the seeded administrator, a member and the member's refresh token.\<close>

definition adminUser0 :: User where
  "adminUser0 =
     \<lparr>id' = ''a1'', email = ''admin@taskflow.com'', username = ''admin'', role = ADMIN,
      firstName = ''System'', lastName = ''Admin'', createdAt = 0,
      password = ''$2a$10$admin123''\<rparr>"

definition memberUser0 :: User where
  "memberUser0 =
     \<lparr>id' = ''b2'', email = ''Bob@x.com'', username = ''bob'', role = MEMBER,
      firstName = ''Bob'', lastName = ''B'', createdAt = 10,
      password = ''$2a$10$password123''\<rparr>"

definition store0 :: MemStorage where
  "store0 =
     \<lparr>users = [(''a1'', adminUser0), (''b2'', memberUser0)],
      refreshTokens =
        [(''tokB'', \<lparr>rt_id = ''r1'', rt_userId = ''b2'', rt_token = ''tokB'',
                     rt_expiresAt = 604800010, rt_createdAt = 10\<rparr>)],
      initialized = True, entropy = 5\<rparr>"

text \<open>
  The same store holding, instead, one live refresh token: a token the reference library
  issued at time 0 for the user id \<open>uid\<close>, with its row.
\<close>

definition liveToken :: "string \<Rightarrow> string" where
  "liveToken uid = generateRefreshToken refLib 0 uid"

definition storeWith :: "string \<Rightarrow> MemStorage" where
  "storeWith uid =
     store0\<lparr>refreshTokens :=
       [(liveToken uid, \<lparr>rt_id = ''r2'', rt_userId = uid, rt_token = liveToken uid,
                          rt_expiresAt = sevenDaysFrom refLib 0, rt_createdAt = 0\<rparr>)]\<rparr>"

text \<open>The reference store when the member holds two refresh tokens.\<close>

definition storeTwo :: MemStorage where
  "storeTwo =
     store0\<lparr>refreshTokens :=
       [(''tokB'', \<lparr>rt_id = ''r1'', rt_userId = ''b2'', rt_token = ''tokB'',
                     rt_expiresAt = 604800010, rt_createdAt = 10\<rparr>),
        (''tokC'', \<lparr>rt_id = ''r3'', rt_userId = ''b2'', rt_token = ''tokC'',
                     rt_expiresAt = 604800020, rt_createdAt = 20\<rparr>)]\<rparr>"

text \<open>
  A server on the reference store whose limiter has counted \<open>h\<close> hits of the client in a
  window that resets at time \<open>reset\<close>.
\<close>

definition serverWith :: "nat \<Rightarrow> nat \<Rightarrow> Server" where
  "serverWith h reset = \<lparr>storage = store0, limiter = [(''10.0.0.7'', (h, reset))]\<rparr>"

definition request0 :: AuthRequest where
  "request0 =
     \<lparr>headers_authorization = None, cookies_refreshToken = None, body = [],
      params_id = [], ip = ''10.0.0.7'', user = None\<rparr>"

section \<open>Properties\<close>

subsection \<open>The reference libraries keep the contract\<close>

declare decimal.simps [simp del]

lemma digit_cases:
  "d < 10 \<Longrightarrow>
     d = 0 \<or> d = 1 \<or> d = 2 \<or> d = 3 \<or> d = 4 \<or> d = 5 \<or> d = 6 \<or> d = 7 \<or> d = 8 \<or> d = (9::nat)"
  by arith

lemma digitVal_digitChar: "d < 10 \<Longrightarrow> digitVal (digitChar d) = d"
  using digit_cases [of d] by (auto simp add: digitVal_def digitChar_def)

lemma digitChar_not_dot: "d < 10 \<Longrightarrow> digitChar d \<noteq> CHR ''.''"
  using digit_cases [of d] by (auto simp add: digitChar_def)

lemma decimal_no_dot: "c \<in> set (decimal n) \<Longrightarrow> c \<noteq> CHR ''.''"
proof (induction n rule: decimal.induct)
  case (1 n)
  show ?case
  proof (cases "n < 10")
    case True
    with "1.prems" show ?thesis
      by (simp add: decimal.simps [of n] digitChar_not_dot)
  next
    case False
    have "digitChar (n mod 10) \<noteq> CHR ''.''"
      by (rule digitChar_not_dot) simp
    with False "1.prems" "1.IH" show ?thesis
      by (auto simp add: decimal.simps [of n])
  qed
qed

lemma undecimal_decimal: "undecimal (decimal n) = n"
proof (induction n rule: decimal.induct)
  case (1 n)
  show ?case
  proof (cases "n < 10")
    case True
    then show ?thesis
      by (simp add: decimal.simps [of n] undecimal_def digitVal_digitChar)
  next
    case False
    with "1.IH" have "undecimal (decimal (n div 10)) = n div 10" by simp
    with False show ?thesis
      by (simp add: decimal.simps [of n] undecimal_def digitVal_digitChar)
  qed
qed

lemma decNat_encNat: "decNat (encNat n @ r) = (n, r)"
proof -
  have a: "takeWhile (\<lambda>c. c \<noteq> CHR ''.'') (decimal n @ CHR ''.'' # r) = decimal n"
    by (simp add: decimal_no_dot)
  have b: "dropWhile (\<lambda>c. c \<noteq> CHR ''.'') (decimal n @ CHR ''.'' # r) = CHR ''.'' # r"
    by (simp add: decimal_no_dot)
  show ?thesis
    by (simp add: decNat_def encNat_def a b undecimal_decimal)
qed

lemma decStr_encStr: "decStr (encStr s @ r) = (s, r)"
  by (simp add: decStr_def encStr_def decNat_encNat)

lemma decOpt_encOpt: "decOpt (encOpt x @ r) = (x, r)"
  by (cases x) (simp_all add: decOpt_def encOpt_def decStr_encStr)

lemma refVerify_refSign:
  "refVerify (refSign payload secret expiresIn now) secret t =
     (if t div 1000 < now div 1000 + expiresIn
      then Inr \<lparr>userId = userId payload, tokenType = tokenType payload,
                iat = now div 1000, expiry = now div 1000 + expiresIn\<rparr>
      else Inl TokenExpiredError)"
proof -
  have "decNat (encNat e) = (e, [])" for e
    using decNat_encNat [of e "[]"] by simp
  then show ?thesis
    by (simp add: refVerify_def refSign_def decStr_encStr decOpt_encOpt decNat_encNat)
qed

lemma refLib_contract: "jwt_contract refLib"
  by (simp add: jwt_contract_def refLib_def refVerify_refSign)

subsection \<open>The store and its maps\<close>

lemma ensureInitialized_tokens [simp]:
  "refreshTokens (ensureInitialized L now st) = refreshTokens st"
  by (simp add: ensureInitialized_def Let_def)

lemma ensureInitialized_initialized [simp]: "initialized (ensureInitialized L now st)"
  by (simp add: ensureInitialized_def Let_def)

lemma ensureInitialized_done [simp]: "initialized st \<Longrightarrow> ensureInitialized L now st = st"
  by (simp add: ensureInitialized_def)

lemma ensureInitialized_idem [simp]:
  "ensureInitialized L now' (ensureInitialized L now st) = ensureInitialized L now st"
  by simp

lemma Map_get_set_same [simp]: "Map_get (Map_set k v m) k = Some v"
  by (induction m) (auto simp add: Map_get_def)

lemma Map_get_set_other: "k' \<noteq> k \<Longrightarrow> Map_get (Map_set k v m) k' = Map_get m k'"
  by (induction m) (auto simp add: Map_get_def)

lemma Map_get_delete [simp]: "Map_get (snd (Map_delete k m)) k = None"
  by (induction m) (auto simp add: Map_get_def Map_delete_def)

lemma Map_delete_absent: "Map_get m k = None \<Longrightarrow> Map_delete k m = (False, m)"
proof -
  assume "Map_get m k = None"
  then have n: "k \<notin> fst ` set m"
    by (simp add: Map_get_def map_of_eq_None_iff)
  then have "filter (\<lambda>e. fst e \<noteq> k) m = m"
    by (induction m) auto
  with n show ?thesis by (simp add: Map_delete_def)
qed

lemma deleteEach_filter: "deleteEach ts m = filter (\<lambda>e. fst e \<notin> rt_token ` set ts) m"
  by (induction ts arbitrary: m) (auto simp add: Map_delete_def intro: filter_cong)

lemma tokensKeyed_filter: "tokensKeyed m \<Longrightarrow> tokensKeyed (filter P m)"
  by (simp add: tokensKeyed_def list_all_iff)

lemma tokensKeyed_set: "tokensKeyed m \<Longrightarrow> rt_token v = k \<Longrightarrow> tokensKeyed (Map_set k v m)"
  by (induction m) (auto simp add: tokensKeyed_def)

lemma tokensKeyed_deleteEach: "tokensKeyed m \<Longrightarrow> tokensKeyed (deleteEach ts m)"
  by (simp add: deleteEach_filter tokensKeyed_filter)

lemma tokensKeyed_delete: "tokensKeyed m \<Longrightarrow> tokensKeyed (snd (Map_delete k m))"
  by (simp add: Map_delete_def tokensKeyed_filter)

lemma deleteEach_none_left:
  assumes "tokensKeyed m"
  shows "filter (\<lambda>t. rt_userId t = uid)
           (map snd (deleteEach (filter (\<lambda>t. rt_userId t = uid) (map snd m)) m)) = []"
proof -
  have "rt_userId (snd e) \<noteq> uid"
    if "e \<in> set m" and "fst e \<notin> rt_token ` set (filter (\<lambda>t. rt_userId t = uid) (map snd m))" for e
  proof
    assume "rt_userId (snd e) = uid"
    with that(1) have "snd e \<in> set (filter (\<lambda>t. rt_userId t = uid) (map snd m))" by simp
    moreover from assms that(1) have "rt_token (snd e) = fst e"
      by (simp add: tokensKeyed_def list_all_iff)
    ultimately show False using that(2) by (metis imageI)
  qed
  then show ?thesis
    by (auto simp add: deleteEach_filter filter_empty_conv)
qed

lemma filter_Map_set_fresh:
  "filter P (map snd m) = [] \<Longrightarrow> P v \<Longrightarrow> filter P (map snd (Map_set k v m)) = [v]"
  by (induction m) (auto split: if_splits)

subsection \<open>Facts about the reference store\<close>

lemma decimal_10: "decimal 10 = ''10''"
  by (simp add: decimal.simps digitChar_def)

lemma store0_initialized [simp]: "ensureInitialized L now store0 = store0"
  by (simp add: store0_def)

lemma refLib_parse_login:
  "loginSchema_parse refLib [(''email'', ''bob@x.com''), (''password'', pw # pws)] =
     Inr \<lparr>login_email = ''bob@x.com'', login_password = pw # pws\<rparr>"
  "loginSchema_parse refLib [(''email'', ''nobody@x.com''), (''password'', pw # pws)] =
     Inr \<lparr>login_email = ''nobody@x.com'', login_password = pw # pws\<rparr>"
  by (simp_all add: loginSchema_parse_def zString_def refLib_def)

lemma refLib_sevenDays: "sevenDaysFrom refLib now = now + 604800000"
  by (simp add: sevenDaysFrom_def refLib_def)

lemma store0_byEmail:
  "fst (getUserByEmail refLib now ''bob@x.com'' (store0\<lparr>refreshTokens := ts, entropy := n\<rparr>)) =
     Some memberUser0"
  "fst (getUserByEmail refLib now ''bob@x.com'' store0) = Some memberUser0"
  "fst (getUserByEmail refLib now ''nobody@x.com'' store0) = None"
  by (simp_all add: getUserByEmail_def store0_def Map_values_def refLib_def lowerChar_def
      adminUser0_def memberUser0_def)

lemma refLib_compare:
  "bcrypt_compare refLib ''password123'' (password memberUser0)"
  "\<not> bcrypt_compare refLib ''wrongpass'' (password memberUser0)"
  by (simp_all add: refLib_def memberUser0_def decimal_10)

lemma refLib_verify_live:
  "t < 604800000 \<Longrightarrow>
   jwt_verify refLib (liveToken uid) (JWT_SECRET refLib) t =
     Inr \<lparr>userId = uid, tokenType = Some ''refresh'', iat = 0, expiry = 604800\<rparr>"
proof -
  assume "t < 604800000"
  then have "t div 1000 < 604800" by simp
  with refLib_contract show ?thesis
    by (simp add: jwt_contract_def liveToken_def generateRefreshToken_def)
qed

lemma liveToken_nonempty: "liveToken uid \<noteq> []"
  by (simp add: liveToken_def generateRefreshToken_def refLib_def refSign_def encStr_def encNat_def)

lemma refLib_tokB:
  "jwt_verify refLib ''tokB'' (JWT_SECRET refLib) 1000 = Inl JsonWebTokenError"
  by (simp add: refLib_def refVerify_def JWT_SECRET_def decStr_def decNat_def)

lemma storeWith_facts:
  "ensureInitialized L now (storeWith uid) = storeWith uid"
  "Map_get (refreshTokens (storeWith uid)) (liveToken uid) =
     Some \<lparr>rt_id = ''r2'', rt_userId = uid, rt_token = liveToken uid,
           rt_expiresAt = sevenDaysFrom refLib 0, rt_createdAt = 0\<rparr>"
  "fst (getUser L now ''zz'' (storeWith uid)) = None"
  "fst (getUser L now ''b2'' (storeWith uid)) = Some memberUser0"
  "tokensKeyed (refreshTokens (storeWith uid))"
  by (simp_all add: storeWith_def store0_def Map_get_def getUser_def tokensKeyed_def)

lemma store0_tokens:
  "Map_get (refreshTokens store0) ''nope'' = None"
  "Map_get (refreshTokens store0) ''tokB'' =
     Some \<lparr>rt_id = ''r1'', rt_userId = ''b2'', rt_token = ''tokB'',
           rt_expiresAt = 604800010, rt_createdAt = 10\<rparr>"
  by (simp_all add: store0_def Map_get_def)

subsection \<open>Token issuer\<close>

lemma verify_signed:
  assumes "jwt_contract L"
  shows "verifyToken L t (jwt_sign L payload (JWT_SECRET L) expiresIn now) =
     (if t < 1000 * (now div 1000 + expiresIn)
      then Some \<lparr>userId = userId payload, tokenType = tokenType payload,
                 iat = now div 1000, expiry = now div 1000 + expiresIn\<rparr>
      else None)"
proof -
  have "(t div 1000 < now div 1000 + expiresIn) = (t < 1000 * (now div 1000 + expiresIn))"
    by (simp add: div_less_iff_less_mult mult.commute)
  with assms show ?thesis
    by (simp add: verifyToken_def jwt_contract_def)
qed

lemma refLib_garbage:
  "jwt_verify refLib ''garbage'' (JWT_SECRET refLib) 5000 = Inl JsonWebTokenError"
  by (simp add: refLib_def refVerify_def JWT_SECRET_def decStr_def decNat_def)

text \<open>
  C3. With a token library that keeps the contract, an access token issued for user \<open>u\<close>
  at clock \<open>now\<close> expires at the instant \<open>1000 * (now div 1000 + 15 * 60)\<close> milliseconds:
  \<open>verifyToken\<close> returns the claims with \<open>userId = u\<close> at every time strictly before that
  instant and \<open>None\<close> (the source's \<open>null\<close>) at that instant and after it. For every
  token string and whatever the library throws on it (malformed, expired, bad
  signature), \<open>verifyToken\<close> returns \<open>None\<close>; it throws nothing.
\<close>

theorem verify_access_token:
  assumes "jwt_contract L"
  shows "(t < 1000 * (now div 1000 + 15 * 60) \<longrightarrow>
            verifyToken L t (generateAccessToken L now u) =
              Some \<lparr>userId = u, tokenType = None, iat = now div 1000,
                    expiry = now div 1000 + 15 * 60\<rparr>) \<and>
         (1000 * (now div 1000 + 15 * 60) \<le> t \<longrightarrow>
            verifyToken L t (generateAccessToken L now u) = None) \<and>
         (\<forall>token err. jwt_verify L token (JWT_SECRET L) t = Inl err \<longrightarrow>
            verifyToken L t token = None)"
proof (intro conjI impI allI)
  assume "t < 1000 * (now div 1000 + 15 * 60)"
  then show "verifyToken L t (generateAccessToken L now u) =
      Some \<lparr>userId = u, tokenType = None, iat = now div 1000, expiry = now div 1000 + 15 * 60\<rparr>"
    unfolding generateAccessToken_def by (simp add: verify_signed [OF assms])
next
  assume "1000 * (now div 1000 + 15 * 60) \<le> t"
  then show "verifyToken L t (generateAccessToken L now u) = None"
    unfolding generateAccessToken_def by (simp add: verify_signed [OF assms])
next
  fix token err
  assume "jwt_verify L token (JWT_SECRET L) t = Inl err"
  then show "verifyToken L t token = None"
    by (simp add: verifyToken_def)
qed

theorem verify_access_token_witness:
  "verifyToken refLib 904999 (generateAccessToken refLib 5000 ''b2'') =
     Some \<lparr>userId = ''b2'', tokenType = None, iat = 5, expiry = 905\<rparr> \<and>
   verifyToken refLib 905000 (generateAccessToken refLib 5000 ''b2'') = None \<and>
   jwt_verify refLib ''garbage'' (JWT_SECRET refLib) 5000 = Inl JsonWebTokenError \<and>
   verifyToken refLib 5000 ''garbage'' = None"
proof -
  from verify_access_token [OF refLib_contract, of 904999 5000 "''b2''"]
       verify_access_token [OF refLib_contract, of 905000 5000 "''b2''"]
       verify_access_token [OF refLib_contract, of 5000 5000 "''b2''"] refLib_garbage
  show ?thesis by simp
qed

subsection \<open>Role guard\<close>

text \<open>
  C6, as the code has it. \<open>requireRole roles\<close> answers 401 "Not authenticated" when no
  identity is attached, 403 "Insufficient permissions" when the attached identity's role
  is not among \<open>roles\<close>, and calls \<open>next\<close> otherwise. \<open>requireAdmin\<close> decides as
  \<open>requireRole [ADMIN]\<close> does, with the same status codes: 401 without an identity, 403
  for a MEMBER identity, \<open>next\<close> for an ADMIN identity. Its 403 carries its own message,
  "Admin access required".
\<close>

theorem role_guard:
  "(user req = None \<longrightarrow>
      requireRole roles req = Respond (respond 401 ''Not authenticated'') \<and>
      requireAdmin req = Respond (respond 401 ''Not authenticated'')) \<and>
   (\<forall>u. user req = Some u \<and> role u \<notin> set roles \<longrightarrow>
      requireRole roles req = Respond (respond 403 ''Insufficient permissions'')) \<and>
   (\<forall>u. user req = Some u \<and> role u \<in> set roles \<longrightarrow> requireRole roles req = Next req) \<and>
   (\<forall>u. user req = Some u \<and> role u = MEMBER \<longrightarrow>
      requireAdmin req = Respond (respond 403 ''Admin access required'') \<and>
      requireRole [ADMIN] req = Respond (respond 403 ''Insufficient permissions'')) \<and>
   (\<forall>u. user req = Some u \<and> role u = ADMIN \<longrightarrow>
      requireAdmin req = Next req \<and> requireRole [ADMIN] req = Next req)"
  by (auto simp add: requireRole_def requireAdmin_def)

theorem role_guard_witness:
  "requireRole [MEMBER] request0 = Respond (respond 401 ''Not authenticated'') \<and>
   requireAdmin request0 = Respond (respond 401 ''Not authenticated'') \<and>
   requireRole [ADMIN] (request0\<lparr>user := Some (toPublicUser memberUser0)\<rparr>) =
     Respond (respond 403 ''Insufficient permissions'') \<and>
   requireRole [ADMIN, MEMBER] (request0\<lparr>user := Some (toPublicUser memberUser0)\<rparr>) =
     Next (request0\<lparr>user := Some (toPublicUser memberUser0)\<rparr>) \<and>
   requireAdmin (request0\<lparr>user := Some (toPublicUser memberUser0)\<rparr>) =
     Respond (respond 403 ''Admin access required'') \<and>
   requireAdmin (request0\<lparr>user := Some (toPublicUser adminUser0)\<rparr>) =
     Next (request0\<lparr>user := Some (toPublicUser adminUser0)\<rparr>)"
proof -
  have m: "role (toPublicUser memberUser0) = MEMBER" and a: "role (toPublicUser adminUser0) = ADMIN"
    by (simp_all add: toPublicUser_def memberUser0_def adminUser0_def)
  have n: "user request0 = None" by (simp add: request0_def)
  from role_guard [of request0 "[MEMBER]"] n
       role_guard [of "request0\<lparr>user := Some (toPublicUser memberUser0)\<rparr>" "[ADMIN]"]
       role_guard [of "request0\<lparr>user := Some (toPublicUser memberUser0)\<rparr>" "[ADMIN, MEMBER]"]
       role_guard [of "request0\<lparr>user := Some (toPublicUser adminUser0)\<rparr>" "[ADMIN]"] m a
  show ?thesis by simp
qed

text \<open>
  C6 as stated fails: \<open>requireAdmin\<close> does not behave identically to \<open>requireRole [ADMIN]\<close>.
  On a request with a MEMBER identity the two responses differ (in the message).
\<close>

theorem requireAdmin_message_counterexample:
  "requireAdmin (request0\<lparr>user := Some (toPublicUser memberUser0)\<rparr>) \<noteq>
   requireRole [ADMIN] (request0\<lparr>user := Some (toPublicUser memberUser0)\<rparr>)"
  by (simp add: requireAdmin_def requireRole_def toPublicUser_def memberUser0_def respond_def)

subsection \<open>Auth middleware\<close>

lemma startsWith_Bearer [simp]:
  "startsWith (CHR ''B'' # CHR ''e'' # CHR ''a'' # CHR ''r'' # CHR ''e'' # CHR ''r'' # CHR '' '' # token)
     ''Bearer ''"
  by (simp add: startsWith_def)

lemma substring_Bearer [simp]:
  "substring (CHR ''B'' # CHR ''e'' # CHR ''a'' # CHR ''r'' # CHR ''e'' # CHR ''r'' # CHR '' '' # token) 7
     = token"
  by (simp add: substring_def)

lemma authenticate_cases:
  "authenticate L now req st =
     (case headers_authorization req of
        None \<Rightarrow> (Respond (respond 401 ''No token provided''), st)
      | Some h \<Rightarrow>
          if \<not> startsWith h ''Bearer '' then (Respond (respond 401 ''No token provided''), st)
          else (case verifyToken L now (substring h 7) of
                  None \<Rightarrow> (Respond (respond 401 ''Invalid or expired token''), st)
                | Some d \<Rightarrow>
                    (case fst (getUser L now (userId d) st) of
                       None \<Rightarrow> (Respond (respond 401 ''User not found''), ensureInitialized L now st)
                     | Some u \<Rightarrow> (Next (req\<lparr>user := Some (toPublicUser u)\<rparr>),
                                   ensureInitialized L now st))))"
  by (auto simp add: authenticate_def getUser_def Let_def toPublicUser_def startsWith_def
      split: option.splits)

lemma refLib_verify_access:
  "jwt_verify refLib (generateAccessToken refLib 0 u) (JWT_SECRET refLib) 1000 =
     Inr \<lparr>userId = u, tokenType = None, iat = 0, expiry = 900\<rparr>"
  using refLib_contract by (simp add: jwt_contract_def generateAccessToken_def)

lemma store0_getUser:
  "fst (getUser L now ''zz'' store0) = None"
  "fst (getUser L now ''b2'' store0) = Some memberUser0"
  "fst (getUser L now ''a1'' store0) = Some adminUser0"
  by (simp_all add: getUser_def ensureInitialized_def store0_def Map_get_def)

text \<open>
  C1. \<open>authenticate\<close> answers 401, without calling \<open>next\<close>, when the Authorization header
  is absent, when it does not start with "Bearer ", when \<open>jwt.verify\<close> throws on the
  bearer token (whatever the error), and when the verified token's \<open>userId\<close> has no user
  in the store; otherwise it calls \<open>next\<close> on the request with the identity attached:
  the user's id, email, username, role, first name, last name and creation time, a
  \<open>UserPublic\<close>, which has no password field. Every response \<open>authenticate\<close> itself sends has
  status 401.
\<close>

theorem authenticate_outcomes:
  "(headers_authorization req = None \<longrightarrow>
      authenticate L now req st = (Respond (respond 401 ''No token provided''), st)) \<and>
   (\<forall>h. headers_authorization req = Some h \<and> \<not> startsWith h ''Bearer '' \<longrightarrow>
      authenticate L now req st = (Respond (respond 401 ''No token provided''), st)) \<and>
   (\<forall>h err. headers_authorization req = Some h \<and> startsWith h ''Bearer '' \<and>
        jwt_verify L (substring h 7) (JWT_SECRET L) now = Inl err \<longrightarrow>
      authenticate L now req st = (Respond (respond 401 ''Invalid or expired token''), st)) \<and>
   (\<forall>h d. headers_authorization req = Some h \<and> startsWith h ''Bearer '' \<and>
        jwt_verify L (substring h 7) (JWT_SECRET L) now = Inr d \<and>
        fst (getUser L now (userId d) st) = None \<longrightarrow>
      fst (authenticate L now req st) = Respond (respond 401 ''User not found'')) \<and>
   (\<forall>h d u. headers_authorization req = Some h \<and> startsWith h ''Bearer '' \<and>
        jwt_verify L (substring h 7) (JWT_SECRET L) now = Inr d \<and>
        fst (getUser L now (userId d) st) = Some u \<longrightarrow>
      fst (authenticate L now req st) =
        Next (req\<lparr>user := Some \<lparr>id' = id' u, email = email u, username = username u,
                                 role = role u, firstName = firstName u,
                                 lastName = lastName u, createdAt = createdAt u\<rparr>\<rparr>)) \<and>
   (\<forall>res. fst (authenticate L now req st) = Respond res \<longrightarrow> status res = 401)"
  by (auto simp add: authenticate_cases verifyToken_def toPublicUser_def respond_def
      split: option.splits sum.splits)

theorem authenticate_outcomes_witness:
  "authenticate refLib 1000 request0 store0 =
     (Respond (respond 401 ''No token provided''), store0) \<and>
   authenticate refLib 1000 (request0\<lparr>headers_authorization := Some ''Basic abc''\<rparr>) store0 =
     (Respond (respond 401 ''No token provided''), store0) \<and>
   authenticate refLib 5000 (request0\<lparr>headers_authorization := Some ''Bearer garbage''\<rparr>) store0 =
     (Respond (respond 401 ''Invalid or expired token''), store0) \<and>
   fst (authenticate refLib 1000
          (request0\<lparr>headers_authorization :=
             Some (''Bearer '' @ generateAccessToken refLib 0 ''zz'')\<rparr>) store0) =
     Respond (respond 401 ''User not found'') \<and>
   fst (authenticate refLib 1000
          (request0\<lparr>headers_authorization :=
             Some (''Bearer '' @ generateAccessToken refLib 0 ''b2'')\<rparr>) store0) =
     Next (request0\<lparr>headers_authorization :=
                      Some (''Bearer '' @ generateAccessToken refLib 0 ''b2''),
                    user := Some \<lparr>id' = ''b2'', email = ''Bob@x.com'', username = ''bob'',
                                  role = MEMBER, firstName = ''Bob'', lastName = ''B'',
                                  createdAt = 10\<rparr>\<rparr>)"
proof (intro conjI)
  have "headers_authorization request0 = None"
    by (simp add: request0_def)
  with authenticate_outcomes [of request0 refLib 1000 store0]
  show "authenticate refLib 1000 request0 store0 =
     (Respond (respond 401 ''No token provided''), store0)"
    by blast
next
  let ?r = "request0\<lparr>headers_authorization := Some ''Basic abc''\<rparr>"
  have "headers_authorization ?r = Some ''Basic abc'' \<and> \<not> startsWith ''Basic abc'' ''Bearer ''"
    by (simp add: startsWith_def)
  with authenticate_outcomes [of ?r refLib 1000 store0]
  show "authenticate refLib 1000 ?r store0 =
     (Respond (respond 401 ''No token provided''), store0)"
    by blast
next
  let ?r = "request0\<lparr>headers_authorization := Some ''Bearer garbage''\<rparr>"
  have "headers_authorization ?r = Some ''Bearer garbage'' \<and> startsWith ''Bearer garbage'' ''Bearer '' \<and>
        jwt_verify refLib (substring ''Bearer garbage'' 7) (JWT_SECRET refLib) 5000 =
          Inl JsonWebTokenError"
    using refLib_garbage by (simp add: startsWith_def substring_def)
  with authenticate_outcomes [of ?r refLib 5000 store0]
  show "authenticate refLib 5000 ?r store0 =
     (Respond (respond 401 ''Invalid or expired token''), store0)"
    by blast
next
  let ?h = "''Bearer '' @ generateAccessToken refLib 0 ''zz''"
  let ?r = "request0\<lparr>headers_authorization := Some ?h\<rparr>"
  let ?d = "\<lparr>userId = ''zz'', tokenType = None, iat = 0, expiry = 900\<rparr>"
  have "headers_authorization ?r = Some ?h \<and> startsWith ?h ''Bearer '' \<and>
        jwt_verify refLib (substring ?h 7) (JWT_SECRET refLib) 1000 = Inr ?d \<and>
        fst (getUser refLib 1000 (userId ?d) store0) = None"
    using refLib_verify_access [of "''zz''"] store0_getUser(1) [of refLib 1000] by simp
  with authenticate_outcomes [of ?r refLib 1000 store0]
  show "fst (authenticate refLib 1000 ?r store0) = Respond (respond 401 ''User not found'')"
    by blast
next
  let ?h = "''Bearer '' @ generateAccessToken refLib 0 ''b2''"
  let ?r = "request0\<lparr>headers_authorization := Some ?h\<rparr>"
  let ?d = "\<lparr>userId = ''b2'', tokenType = None, iat = 0, expiry = 900\<rparr>"
  have "headers_authorization ?r = Some ?h \<and> startsWith ?h ''Bearer '' \<and>
        jwt_verify refLib (substring ?h 7) (JWT_SECRET refLib) 1000 = Inr ?d \<and>
        fst (getUser refLib 1000 (userId ?d) store0) = Some memberUser0"
    using refLib_verify_access [of "''b2''"] store0_getUser(2) [of refLib 1000] by simp
  with authenticate_outcomes [of ?r refLib 1000 store0]
  have "fst (authenticate refLib 1000 ?r store0) =
     Next (?r\<lparr>user := Some \<lparr>id' = id' memberUser0, email = email memberUser0,
                              username = username memberUser0, role = role memberUser0,
                              firstName = firstName memberUser0, lastName = lastName memberUser0,
                              createdAt = createdAt memberUser0\<rparr>\<rparr>)"
    by blast
  then show "fst (authenticate refLib 1000 ?r store0) =
     Next (request0\<lparr>headers_authorization := Some ?h,
                    user := Some \<lparr>id' = ''b2'', email = ''Bob@x.com'', username = ''bob'',
                                  role = MEMBER, firstName = ''Bob'', lastName = ''B'',
                                  createdAt = 10\<rparr>\<rparr>)"
    by (simp add: memberUser0_def)
qed

subsection \<open>Refresh tokens pass as bearer tokens\<close>

text \<open>
  C10. With a token library that keeps the contract, a refresh token issued for \<open>u\<close> at
  clock \<open>now\<close> verifies to claims with \<open>userId = u\<close> at every time strictly before
  \<open>1000 * (now div 1000 + 7 * 24 * 60 * 60)\<close> milliseconds; \<open>verifyToken\<close> does not look at
  the type tag. Sent as \<open>Authorization: Bearer\<close>, it takes \<open>authenticate\<close> to the same
  outcome as an unexpired access token of \<open>u\<close> does: \<open>next\<close> with the identity of \<open>u\<close>
  attached when \<open>u\<close> is in the store, 401 "User not found" otherwise.
\<close>

theorem refresh_token_as_bearer:
  assumes "jwt_contract L" and "t < 1000 * (now div 1000 + 7 * 24 * 60 * 60)"
  shows "verifyToken L t (generateRefreshToken L now u) =
           Some \<lparr>userId = u, tokenType = Some ''refresh'', iat = now div 1000,
                 expiry = now div 1000 + 7 * 24 * 60 * 60\<rparr> \<and>
         authenticate L t
             (req\<lparr>headers_authorization := Some (''Bearer '' @ generateRefreshToken L now u)\<rparr>) st =
           (case fst (getUser L t u st) of
              None \<Rightarrow> (Respond (respond 401 ''User not found''), ensureInitialized L t st)
            | Some usr \<Rightarrow>
                (Next (req\<lparr>headers_authorization :=
                              Some (''Bearer '' @ generateRefreshToken L now u),
                            user := Some (toPublicUser usr)\<rparr>), ensureInitialized L t st)) \<and>
         (t < 1000 * (now div 1000 + 15 * 60) \<longrightarrow>
          authenticate L t
             (req\<lparr>headers_authorization := Some (''Bearer '' @ generateAccessToken L now u)\<rparr>) st =
           (case fst (getUser L t u st) of
              None \<Rightarrow> (Respond (respond 401 ''User not found''), ensureInitialized L t st)
            | Some usr \<Rightarrow>
                (Next (req\<lparr>headers_authorization :=
                              Some (''Bearer '' @ generateAccessToken L now u),
                            user := Some (toPublicUser usr)\<rparr>), ensureInitialized L t st)))"
proof -
  from assms have r: "verifyToken L t (generateRefreshToken L now u) =
      Some \<lparr>userId = u, tokenType = Some ''refresh'', iat = now div 1000,
            expiry = now div 1000 + 7 * 24 * 60 * 60\<rparr>"
    unfolding generateRefreshToken_def by (simp add: verify_signed)
  have a: "verifyToken L t (generateAccessToken L now u) =
      Some \<lparr>userId = u, tokenType = None, iat = now div 1000, expiry = now div 1000 + 15 * 60\<rparr>"
    if "t < 1000 * (now div 1000 + 15 * 60)"
    using assms(1) that unfolding generateAccessToken_def by (simp add: verify_signed)
  show ?thesis
    by (simp add: authenticate_cases r a split: option.split)
qed

theorem refresh_token_as_bearer_witness:
  "verifyToken refLib 604804999 (generateRefreshToken refLib 5000 ''b2'') =
     Some \<lparr>userId = ''b2'', tokenType = Some ''refresh'', iat = 5, expiry = 604805\<rparr> \<and>
   authenticate refLib 6000
       (request0\<lparr>headers_authorization :=
          Some (''Bearer '' @ generateRefreshToken refLib 5000 ''b2'')\<rparr>) store0 =
     (Next (request0\<lparr>headers_authorization :=
                       Some (''Bearer '' @ generateRefreshToken refLib 5000 ''b2''),
                     user := Some (toPublicUser memberUser0)\<rparr>), store0) \<and>
   authenticate refLib 6000
       (request0\<lparr>headers_authorization :=
          Some (''Bearer '' @ generateAccessToken refLib 5000 ''b2'')\<rparr>) store0 =
     (Next (request0\<lparr>headers_authorization :=
                       Some (''Bearer '' @ generateAccessToken refLib 5000 ''b2''),
                     user := Some (toPublicUser memberUser0)\<rparr>), store0)"
proof -
  have i: "ensureInitialized refLib 6000 store0 = store0"
    by (simp add: ensureInitialized_def store0_def)
  have a: "(604804999::nat) < 1000 * (5000 div 1000 + 7 * 24 * 60 * 60)"
          "(6000::nat) < 1000 * (5000 div 1000 + 7 * 24 * 60 * 60)"
          "(6000::nat) < 1000 * (5000 div 1000 + 15 * 60)"
    by simp_all
  from refresh_token_as_bearer [OF refLib_contract a(1), of "''b2''" request0 store0]
  have v: "verifyToken refLib 604804999 (generateRefreshToken refLib 5000 ''b2'') =
     Some \<lparr>userId = ''b2'', tokenType = Some ''refresh'', iat = 5, expiry = 604805\<rparr>"
    by simp
  from refresh_token_as_bearer [OF refLib_contract a(2), of "''b2''" request0 store0]
       a(3) store0_getUser(2) [of refLib 6000] i
  show ?thesis
    by (simp add: v)
qed

subsection \<open>Refresh\<close>

lemma refresh_try_cases:
  "refresh_try L now req st =
     (case cookies_refreshToken req of
        None \<Rightarrow> (Inl (AppError 401 ''No refresh token provided''), st)
      | Some c \<Rightarrow>
          if c = [] then (Inl (AppError 401 ''No refresh token provided''), st)
          else
            (case Map_get (refreshTokens st) c of
               None \<Rightarrow> (Inl (AppError 401 ''Invalid refresh token''), ensureInitialized L now st)
             | Some row \<Rightarrow>
                 if rt_expiresAt row < now
                 then (Inl (AppError 401 ''Refresh token expired''),
                       (ensureInitialized L now st)
                         \<lparr>refreshTokens := snd (Map_delete c (refreshTokens st))\<rparr>)
                 else
                   (case jwt_verify L c (JWT_SECRET L) now of
                      Inl err \<Rightarrow>
                        (Inl (AppError 401 ''Invalid refresh token''),
                         (ensureInitialized L now st)
                           \<lparr>refreshTokens := snd (Map_delete c (refreshTokens st))\<rparr>)
                    | Inr d \<Rightarrow>
                        (case fst (getUser L now (userId d) st) of
                           None \<Rightarrow> (Inl (AppError 401 ''User not found''), ensureInitialized L now st)
                         | Some u \<Rightarrow>
                             (Inr \<lparr>status = 200,
                                   json = AccessTokenJson (generateAccessToken L now (id' u)),
                                   cookies = []\<rparr>, ensureInitialized L now st)))))"
  by (simp add: refresh_try_def getRefreshToken_def deleteRefreshToken_def getUser_def
      verifyToken_def Let_def split_beta split: option.splits sum.splits)

text \<open>
  C4. The refresh handler answers 401 when the \<open>refreshToken\<close> cookie is absent (or
  empty), when the store has no row for the cookie's value, when the row's expiry has
  passed (\<open>rt_expiresAt row < now\<close>; the row is deleted first), when \<open>jwt.verify\<close> throws
  on the token (the row is deleted first), and when the token's user is not in the
  store. Otherwise it answers 200 with a newly issued access token and nothing else:
  no cookie is set and the refresh token rows are as they were.
\<close>

theorem refresh_outcomes:
  "(cookies_refreshToken req = None \<or> cookies_refreshToken req = Some [] \<longrightarrow>
      handled (refresh_try L now req st) = (respond 401 ''No refresh token provided'', st)) \<and>
   (\<forall>c. cookies_refreshToken req = Some c \<and> c \<noteq> [] \<and> Map_get (refreshTokens st) c = None \<longrightarrow>
      handled (refresh_try L now req st) =
        (respond 401 ''Invalid refresh token'', ensureInitialized L now st)) \<and>
   (\<forall>c row. cookies_refreshToken req = Some c \<and> c \<noteq> [] \<and>
        Map_get (refreshTokens st) c = Some row \<and> rt_expiresAt row < now \<longrightarrow>
      fst (handled (refresh_try L now req st)) = respond 401 ''Refresh token expired'' \<and>
      refreshTokens (snd (handled (refresh_try L now req st))) =
        snd (Map_delete c (refreshTokens st)) \<and>
      Map_get (refreshTokens (snd (handled (refresh_try L now req st)))) c = None) \<and>
   (\<forall>c row err. cookies_refreshToken req = Some c \<and> c \<noteq> [] \<and>
        Map_get (refreshTokens st) c = Some row \<and> now \<le> rt_expiresAt row \<and>
        jwt_verify L c (JWT_SECRET L) now = Inl err \<longrightarrow>
      fst (handled (refresh_try L now req st)) = respond 401 ''Invalid refresh token'' \<and>
      refreshTokens (snd (handled (refresh_try L now req st))) =
        snd (Map_delete c (refreshTokens st)) \<and>
      Map_get (refreshTokens (snd (handled (refresh_try L now req st)))) c = None) \<and>
   (\<forall>c row d. cookies_refreshToken req = Some c \<and> c \<noteq> [] \<and>
        Map_get (refreshTokens st) c = Some row \<and> now \<le> rt_expiresAt row \<and>
        jwt_verify L c (JWT_SECRET L) now = Inr d \<and>
        fst (getUser L now (userId d) st) = None \<longrightarrow>
      handled (refresh_try L now req st) =
        (respond 401 ''User not found'', ensureInitialized L now st)) \<and>
   (\<forall>c row d u. cookies_refreshToken req = Some c \<and> c \<noteq> [] \<and>
        Map_get (refreshTokens st) c = Some row \<and> now \<le> rt_expiresAt row \<and>
        jwt_verify L c (JWT_SECRET L) now = Inr d \<and>
        fst (getUser L now (userId d) st) = Some u \<longrightarrow>
      fst (handled (refresh_try L now req st)) =
        \<lparr>status = 200, json = AccessTokenJson (generateAccessToken L now (id' u)),
         cookies = []\<rparr> \<and>
      refreshTokens (snd (handled (refresh_try L now req st))) = refreshTokens st)"
  by (auto simp add: refresh_try_cases handled_def errorHandler_def)

theorem refresh_outcomes_witness:
  "handled (refresh_try refLib 1000 request0 store0) =
     (respond 401 ''No refresh token provided'', store0) \<and>
   handled (refresh_try refLib 1000 (request0\<lparr>cookies_refreshToken := Some ''nope''\<rparr>) store0) =
     (respond 401 ''Invalid refresh token'', store0) \<and>
   fst (handled (refresh_try refLib 604800011
          (request0\<lparr>cookies_refreshToken := Some ''tokB''\<rparr>) store0)) =
     respond 401 ''Refresh token expired'' \<and>
   Map_get (refreshTokens (snd (handled (refresh_try refLib 604800011
          (request0\<lparr>cookies_refreshToken := Some ''tokB''\<rparr>) store0)))) ''tokB'' = None \<and>
   fst (handled (refresh_try refLib 1000
          (request0\<lparr>cookies_refreshToken := Some ''tokB''\<rparr>) store0)) =
     respond 401 ''Invalid refresh token'' \<and>
   Map_get (refreshTokens (snd (handled (refresh_try refLib 1000
          (request0\<lparr>cookies_refreshToken := Some ''tokB''\<rparr>) store0)))) ''tokB'' = None \<and>
   handled (refresh_try refLib 1000
          (request0\<lparr>cookies_refreshToken := Some (liveToken ''zz'')\<rparr>) (storeWith ''zz'')) =
     (respond 401 ''User not found'', storeWith ''zz'') \<and>
   fst (handled (refresh_try refLib 1000
          (request0\<lparr>cookies_refreshToken := Some (liveToken ''b2'')\<rparr>) (storeWith ''b2''))) =
     \<lparr>status = 200, json = AccessTokenJson (generateAccessToken refLib 1000 ''b2''),
      cookies = []\<rparr> \<and>
   refreshTokens (snd (handled (refresh_try refLib 1000
          (request0\<lparr>cookies_refreshToken := Some (liveToken ''b2'')\<rparr>) (storeWith ''b2'')))) =
     refreshTokens (storeWith ''b2'')"
proof -
  let ?row = "\<lparr>rt_id = ''r1'', rt_userId = ''b2'', rt_token = ''tokB'',
                rt_expiresAt = 604800010, rt_createdAt = 10\<rparr>"
  let ?live = "\<lambda>uid. \<lparr>rt_id = ''r2'', rt_userId = uid, rt_token = liveToken uid,
                rt_expiresAt = sevenDaysFrom refLib 0, rt_createdAt = 0\<rparr>"
  have "cookies_refreshToken request0 = None"
    by (simp add: request0_def)
  with refresh_outcomes [of request0 refLib 1000 store0]
  have 1: "handled (refresh_try refLib 1000 request0 store0) =
     (respond 401 ''No refresh token provided'', store0)"
    by blast
  let ?r = "request0\<lparr>cookies_refreshToken := Some ''nope''\<rparr>"
  have "cookies_refreshToken ?r = Some ''nope'' \<and> ''nope'' \<noteq> [] \<and>
        Map_get (refreshTokens store0) ''nope'' = None"
    using store0_tokens(1) by simp
  with refresh_outcomes [of ?r refLib 1000 store0]
  have 2: "handled (refresh_try refLib 1000 ?r store0) =
     (respond 401 ''Invalid refresh token'', store0)"
    by (simp del: not_None_eq)
  let ?r = "request0\<lparr>cookies_refreshToken := Some ''tokB''\<rparr>"
  have "cookies_refreshToken ?r = Some ''tokB'' \<and> ''tokB'' \<noteq> [] \<and>
        Map_get (refreshTokens store0) ''tokB'' = Some ?row \<and> rt_expiresAt ?row < 604800011"
    using store0_tokens(2) by simp
  with refresh_outcomes [of ?r refLib 604800011 store0]
  have 3: "fst (handled (refresh_try refLib 604800011 ?r store0)) =
             respond 401 ''Refresh token expired'' \<and>
           Map_get (refreshTokens (snd (handled (refresh_try refLib 604800011 ?r store0)))) ''tokB''
             = None"
    by blast
  have "cookies_refreshToken ?r = Some ''tokB'' \<and> ''tokB'' \<noteq> [] \<and>
        Map_get (refreshTokens store0) ''tokB'' = Some ?row \<and> 1000 \<le> rt_expiresAt ?row \<and>
        jwt_verify refLib ''tokB'' (JWT_SECRET refLib) 1000 = Inl JsonWebTokenError"
    using store0_tokens(2) refLib_tokB by simp
  with refresh_outcomes [of ?r refLib 1000 store0]
  have 4: "fst (handled (refresh_try refLib 1000 ?r store0)) =
             respond 401 ''Invalid refresh token'' \<and>
           Map_get (refreshTokens (snd (handled (refresh_try refLib 1000 ?r store0)))) ''tokB''
             = None"
    by blast
  let ?r = "request0\<lparr>cookies_refreshToken := Some (liveToken ''zz'')\<rparr>"
  let ?d = "\<lparr>userId = ''zz'', tokenType = Some ''refresh'', iat = 0, expiry = 604800\<rparr>"
  have "cookies_refreshToken ?r = Some (liveToken ''zz'') \<and> liveToken ''zz'' \<noteq> [] \<and>
        Map_get (refreshTokens (storeWith ''zz'')) (liveToken ''zz'') = Some (?live ''zz'') \<and>
        1000 \<le> rt_expiresAt (?live ''zz'') \<and>
        jwt_verify refLib (liveToken ''zz'') (JWT_SECRET refLib) 1000 = Inr ?d \<and>
        fst (getUser refLib 1000 (userId ?d) (storeWith ''zz'')) = None"
    using storeWith_facts(2,3) liveToken_nonempty refLib_verify_live [of 1000 "''zz''"]
    by (simp add: refLib_sevenDays)
  with refresh_outcomes [of ?r refLib 1000 "storeWith ''zz''"]
  have "handled (refresh_try refLib 1000 ?r (storeWith ''zz'')) =
     (respond 401 ''User not found'', ensureInitialized refLib 1000 (storeWith ''zz''))"
    by blast
  then have 5: "handled (refresh_try refLib 1000 ?r (storeWith ''zz'')) =
     (respond 401 ''User not found'', storeWith ''zz'')"
    by (simp add: storeWith_facts(1))
  let ?r = "request0\<lparr>cookies_refreshToken := Some (liveToken ''b2'')\<rparr>"
  let ?d = "\<lparr>userId = ''b2'', tokenType = Some ''refresh'', iat = 0, expiry = 604800\<rparr>"
  have "cookies_refreshToken ?r = Some (liveToken ''b2'') \<and> liveToken ''b2'' \<noteq> [] \<and>
        Map_get (refreshTokens (storeWith ''b2'')) (liveToken ''b2'') = Some (?live ''b2'') \<and>
        1000 \<le> rt_expiresAt (?live ''b2'') \<and>
        jwt_verify refLib (liveToken ''b2'') (JWT_SECRET refLib) 1000 = Inr ?d \<and>
        fst (getUser refLib 1000 (userId ?d) (storeWith ''b2'')) = Some memberUser0"
    using storeWith_facts(2,4) liveToken_nonempty refLib_verify_live [of 1000 "''b2''"]
    by (simp add: refLib_sevenDays)
  with refresh_outcomes [of ?r refLib 1000 "storeWith ''b2''"]
  have "fst (handled (refresh_try refLib 1000 ?r (storeWith ''b2''))) =
          \<lparr>status = 200, json = AccessTokenJson (generateAccessToken refLib 1000 (id' memberUser0)),
           cookies = []\<rparr> \<and>
        refreshTokens (snd (handled (refresh_try refLib 1000 ?r (storeWith ''b2'')))) =
          refreshTokens (storeWith ''b2'')"
    by blast
  then have 6: "fst (handled (refresh_try refLib 1000 ?r (storeWith ''b2''))) =
          \<lparr>status = 200, json = AccessTokenJson (generateAccessToken refLib 1000 ''b2''),
           cookies = []\<rparr> \<and>
        refreshTokens (snd (handled (refresh_try refLib 1000 ?r (storeWith ''b2'')))) =
          refreshTokens (storeWith ''b2'')"
    by (simp add: memberUser0_def)
  from 1 2 3 4 5 6 show ?thesis by simp
qed

subsection \<open>Deleting a user\<close>

lemma map_of_filter_out:
  "k \<in> S \<Longrightarrow> map_of (filter (\<lambda>e. fst e \<notin> S) m) k = None"
  by (induction m) auto

lemma deleteUser_try_success:
  assumes "deleteUser_try L now req st = (Inr res, st')"
  shows "res = respond 200 ''User deleted successfully'' \<and>
         Map_get (users (ensureInitialized L now st)) (params_id req) \<noteq> None \<and>
         map_option id' (user req) \<noteq> Some (params_id req) \<and>
         st' = (ensureInitialized L now st)
                 \<lparr>users := snd (Map_delete (params_id req) (users (ensureInitialized L now st))),
                  refreshTokens :=
                    deleteEach
                      (filter (\<lambda>t. rt_userId t = params_id req) (Map_values (refreshTokens st)))
                      (refreshTokens st)\<rparr>"
  using assms
  by (auto simp add: deleteUser_try_def deleteUser_def deleteRefreshTokensByUser_def Let_def
      Map_delete_def Map_get_def map_of_eq_None_iff split: if_splits bool.splits)

lemma delete0:
  "deleteUser_try refLib 2000
     (request0\<lparr>params_id := ''b2'', user := Some (toPublicUser adminUser0)\<rparr>) (storeWith ''b2'') =
   (Inr (respond 200 ''User deleted successfully''),
    store0\<lparr>users := [(''a1'', adminUser0)], refreshTokens := []\<rparr>)"
  by (simp add: deleteUser_try_def deleteUser_def deleteRefreshTokensByUser_def storeWith_def
      store0_def Map_delete_def Map_values_def toPublicUser_def adminUser0_def request0_def)

lemma refresh_after_delete0:
  "handled (refresh_try refLib 3000 (request0\<lparr>cookies_refreshToken := Some (liveToken ''b2'')\<rparr>)
     (store0\<lparr>users := [(''a1'', adminUser0)], refreshTokens := []\<rparr>)) =
   (respond 401 ''Invalid refresh token'', store0\<lparr>users := [(''a1'', adminUser0)], refreshTokens := []\<rparr>)"
  using liveToken_nonempty [of "''b2''"]
  by (simp add: refresh_try_cases handled_def errorHandler_def Map_get_def store0_def)

text \<open>
  C8, as the code has it. In a store whose refresh token rows are keyed by their token,
  after an administrator has deleted a user (the handler answered 200), no refresh
  token row owned by that user remains, the user is absent from the store, and a
  refresh request presenting a token whose row that user owned is answered 401 with
  the message "Invalid refresh token": the handler finds no row for it. It does not
  get as far as the user lookup.
\<close>

theorem user_delete_cascade:
  assumes "tokensKeyed (refreshTokens st)" and "deleteUser_try L now req st = (Inr res, st')"
  shows "res = respond 200 ''User deleted successfully'' \<and>
         tokensOfUser (params_id req) st' = [] \<and>
         fst (getUser L now2 (params_id req) st') = None \<and>
         (\<forall>c row. cookies_refreshToken req2 = Some c \<and> c \<noteq> [] \<and>
              Map_get (refreshTokens st) c = Some row \<and> rt_userId row = params_id req \<longrightarrow>
            handled (refresh_try L now2 req2 st') = (respond 401 ''Invalid refresh token'', st'))"
proof -
  note s = deleteUser_try_success [OF assms(2)]
  from s have st': "st' = (ensureInitialized L now st)
                 \<lparr>users := snd (Map_delete (params_id req) (users (ensureInitialized L now st))),
                  refreshTokens :=
                    deleteEach
                      (filter (\<lambda>t. rt_userId t = params_id req) (Map_values (refreshTokens st)))
                      (refreshTokens st)\<rparr>"
    by simp
  have i: "ensureInitialized L now2 st' = st'"
    by (simp add: st')
  have t: "tokensOfUser (params_id req) st' = []"
    using deleteEach_none_left [OF assms(1), of "params_id req"]
    by (simp add: st' tokensOfUser_def Map_values_def)
  have u: "fst (getUser L now2 (params_id req) st') = None"
    by (simp add: getUser_def i) (simp add: st')
  have r: "handled (refresh_try L now2 req2 st') = (respond 401 ''Invalid refresh token'', st')"
    if c: "cookies_refreshToken req2 = Some c \<and> c \<noteq> [] \<and>
           Map_get (refreshTokens st) c = Some row \<and> rt_userId row = params_id req" for c row
  proof -
    from c have "(c, row) \<in> set (refreshTokens st)"
      by (simp add: Map_get_def map_of_SomeD)
    moreover from this assms(1) have "rt_token row = c"
      by (auto simp add: tokensKeyed_def list_all_iff)
    ultimately have "c \<in> rt_token `
        set (filter (\<lambda>t. rt_userId t = params_id req) (Map_values (refreshTokens st)))"
      using c by (force simp add: Map_values_def)
    then have "Map_get (refreshTokens st') c = None"
      by (simp add: st' deleteEach_filter Map_get_def map_of_filter_out)
    with c show ?thesis
      by (simp add: refresh_try_cases handled_def errorHandler_def i)
  qed
  from s t u r show ?thesis by blast
qed

theorem user_delete_cascade_witness:
  "tokensKeyed (refreshTokens (storeWith ''b2'')) \<and>
   fst (deleteUser_try refLib 2000
     (request0\<lparr>params_id := ''b2'', user := Some (toPublicUser adminUser0)\<rparr>) (storeWith ''b2'')) =
     Inr (respond 200 ''User deleted successfully'') \<and>
   tokensOfUser ''b2'' (snd (deleteUser_try refLib 2000
     (request0\<lparr>params_id := ''b2'', user := Some (toPublicUser adminUser0)\<rparr>) (storeWith ''b2''))) = [] \<and>
   fst (handled (refresh_try refLib 3000
     (request0\<lparr>cookies_refreshToken := Some (liveToken ''b2'')\<rparr>)
     (snd (deleteUser_try refLib 2000
        (request0\<lparr>params_id := ''b2'', user := Some (toPublicUser adminUser0)\<rparr>)
        (storeWith ''b2''))))) = respond 401 ''Invalid refresh token''"
proof -
  let ?del = "request0\<lparr>params_id := ''b2'', user := Some (toPublicUser adminUser0)\<rparr>"
  let ?ref = "request0\<lparr>cookies_refreshToken := Some (liveToken ''b2'')\<rparr>"
  let ?row = "\<lparr>rt_id = ''r2'', rt_userId = ''b2'', rt_token = liveToken ''b2'',
               rt_expiresAt = sevenDaysFrom refLib 0, rt_createdAt = 0\<rparr>"
  let ?st' = "store0\<lparr>users := [(''a1'', adminUser0)], refreshTokens := []\<rparr>"
  have p: "params_id ?del = ''b2''" by simp
  have c: "cookies_refreshToken ?ref = Some (liveToken ''b2'') \<and> liveToken ''b2'' \<noteq> [] \<and>
           Map_get (refreshTokens (storeWith ''b2'')) (liveToken ''b2'') = Some ?row \<and>
           rt_userId ?row = params_id ?del"
    using liveToken_nonempty storeWith_facts(2) by simp
  note T = user_delete_cascade [OF storeWith_facts(5) delete0, of 3000 ?ref]
  from T p have a: "tokensOfUser ''b2'' ?st' = []" by simp
  from T c have b: "handled (refresh_try refLib 3000 ?ref ?st') =
      (respond 401 ''Invalid refresh token'', ?st')"
    by blast
  from a b storeWith_facts(5) [of "''b2''"] show ?thesis
    by (simp add: delete0)
qed

text \<open>
  C8 as stated fails in its last part: the refresh after the deletion is not answered
  "User not found". The member's refresh token is live (a refresh at time 1000 returns
  an access token); the administrator deletes the member at time 2000; the refresh at
  time 3000 with the same cookie is answered 401 "Invalid refresh token".
\<close>

theorem refresh_after_delete_counterexample:
  "fst (handled (refresh_try refLib 1000
     (request0\<lparr>cookies_refreshToken := Some (liveToken ''b2'')\<rparr>) (storeWith ''b2''))) =
     \<lparr>status = 200, json = AccessTokenJson (generateAccessToken refLib 1000 ''b2''),
      cookies = []\<rparr> \<and>
   fst (deleteUser_try refLib 2000
     (request0\<lparr>params_id := ''b2'', user := Some (toPublicUser adminUser0)\<rparr>) (storeWith ''b2'')) =
     Inr (respond 200 ''User deleted successfully'') \<and>
   fst (handled (refresh_try refLib 3000
     (request0\<lparr>cookies_refreshToken := Some (liveToken ''b2'')\<rparr>)
     (snd (deleteUser_try refLib 2000
        (request0\<lparr>params_id := ''b2'', user := Some (toPublicUser adminUser0)\<rparr>)
        (storeWith ''b2''))))) = respond 401 ''Invalid refresh token'' \<and>
   fst (handled (refresh_try refLib 3000
     (request0\<lparr>cookies_refreshToken := Some (liveToken ''b2'')\<rparr>)
     (snd (deleteUser_try refLib 2000
        (request0\<lparr>params_id := ''b2'', user := Some (toPublicUser adminUser0)\<rparr>)
        (storeWith ''b2''))))) \<noteq> respond 401 ''User not found''"
proof -
  have live: "fst (handled (refresh_try refLib 1000
     (request0\<lparr>cookies_refreshToken := Some (liveToken ''b2'')\<rparr>) (storeWith ''b2''))) =
     \<lparr>status = 200, json = AccessTokenJson (generateAccessToken refLib 1000 ''b2''),
      cookies = []\<rparr>"
    using liveToken_nonempty [of "''b2''"] refLib_verify_live [of 1000 "''b2''"]
      storeWith_facts(2) [of "''b2''"] storeWith_facts(4) [of refLib 1000 "''b2''"]
    by (simp add: refresh_try_cases handled_def refLib_sevenDays memberUser0_def)
  show ?thesis
    by (simp add: live delete0 refresh_after_delete0 respond_def)
qed

subsection \<open>Login\<close>

lemma login_try_ok:
  assumes "loginSchema_parse L (body req) = Inr d"
    and "fst (getUserByEmail L now (login_email d) st) = Some u"
    and "bcrypt_compare L (login_password d) (password u)"
  shows "login_try L now req st =
     (Inr \<lparr>status = 200, json = AuthJson (toPublicUser u) (generateAccessToken L now (id' u)),
           cookies = [refreshCookie L (generateRefreshToken L now (id' u))]\<rparr>,
      (ensureInitialized L now st)
        \<lparr>refreshTokens :=
           Map_set (generateRefreshToken L now (id' u))
             \<lparr>rt_id = randomUUID L (entropy (ensureInitialized L now st)),
              rt_userId = id' u,
              rt_token = generateRefreshToken L now (id' u),
              rt_expiresAt = sevenDaysFrom L now, rt_createdAt = now\<rparr>
             (deleteEach
                (filter (\<lambda>t. rt_userId t = id' u) (Map_values (refreshTokens st)))
                (refreshTokens st)),
         entropy := entropy (ensureInitialized L now st) + 1\<rparr>)"
  using assms
  by (auto simp add: login_try_def getUserByEmail_def deleteRefreshTokensByUser_def
      createRefreshToken_def Let_def split: sum.splits option.splits if_splits)

lemma login_rows:
  assumes "tokensKeyed (refreshTokens st)"
    and "loginSchema_parse L (body req) = Inr d"
    and "fst (getUserByEmail L now (login_email d) st) = Some u"
    and "bcrypt_compare L (login_password d) (password u)"
  shows "tokensOfUser (id' u) (snd (login_try L now req st)) =
           [\<lparr>rt_id = randomUUID L (entropy (ensureInitialized L now st)), rt_userId = id' u,
             rt_token = generateRefreshToken L now (id' u),
             rt_expiresAt = sevenDaysFrom L now, rt_createdAt = now\<rparr>]"
    and "tokensKeyed (refreshTokens (snd (login_try L now req st)))"
    and "entropy (snd (login_try L now req st)) = entropy (ensureInitialized L now st) + 1"
    and "initialized (snd (login_try L now req st))"
    and "users (snd (login_try L now req st)) = users (ensureInitialized L now st)"
proof -
  note ok = login_try_ok [OF assms(2-4)]
  have "filter (\<lambda>t. rt_userId t = id' u)
          (map snd (Map_set (generateRefreshToken L now (id' u))
             \<lparr>rt_id = randomUUID L (entropy (ensureInitialized L now st)), rt_userId = id' u,
              rt_token = generateRefreshToken L now (id' u),
              rt_expiresAt = sevenDaysFrom L now, rt_createdAt = now\<rparr>
             (deleteEach (filter (\<lambda>t. rt_userId t = id' u) (map snd (refreshTokens st)))
                (refreshTokens st)))) =
        [\<lparr>rt_id = randomUUID L (entropy (ensureInitialized L now st)), rt_userId = id' u,
          rt_token = generateRefreshToken L now (id' u),
          rt_expiresAt = sevenDaysFrom L now, rt_createdAt = now\<rparr>]"
    by (rule filter_Map_set_fresh) (simp_all add: deleteEach_none_left [OF assms(1)])
  then show "tokensOfUser (id' u) (snd (login_try L now req st)) =
           [\<lparr>rt_id = randomUUID L (entropy (ensureInitialized L now st)), rt_userId = id' u,
             rt_token = generateRefreshToken L now (id' u),
             rt_expiresAt = sevenDaysFrom L now, rt_createdAt = now\<rparr>]"
    by (simp add: ok tokensOfUser_def Map_values_def)
  show "tokensKeyed (refreshTokens (snd (login_try L now req st)))"
    by (simp add: ok tokensKeyed_set tokensKeyed_deleteEach assms(1))
  show "entropy (snd (login_try L now req st)) = entropy (ensureInitialized L now st) + 1"
    by (simp add: ok)
  show "initialized (snd (login_try L now req st))"
    by (simp add: ok)
  show "users (snd (login_try L now req st)) = users (ensureInitialized L now st)"
    by (simp add: ok)
qed

lemma byEmail_bob:
  "initialized st \<Longrightarrow> users st = users store0 \<Longrightarrow>
     fst (getUserByEmail refLib now ''bob@x.com'' st) = Some memberUser0"
  by (simp add: getUserByEmail_def store0_def Map_values_def refLib_def lowerChar_def
      adminUser0_def memberUser0_def)

lemma storeTwo_facts:
  "tokensKeyed (refreshTokens storeTwo)"
  "initialized storeTwo"
  "users storeTwo = users store0"
  "entropy storeTwo = 5"
  "tokensOfUser ''b2'' storeTwo =
     [\<lparr>rt_id = ''r1'', rt_userId = ''b2'', rt_token = ''tokB'',
       rt_expiresAt = 604800010, rt_createdAt = 10\<rparr>,
      \<lparr>rt_id = ''r3'', rt_userId = ''b2'', rt_token = ''tokC'',
       rt_expiresAt = 604800020, rt_createdAt = 20\<rparr>]"
  by (simp_all add: storeTwo_def store0_def tokensKeyed_def tokensOfUser_def Map_values_def)

lemma refLib_uuid:
  "randomUUID refLib 5 = ''uuid-5''"
  "randomUUID refLib 6 = ''uuid-6''"
  by (simp_all add: refLib_def decimal.simps digitChar_def)

text \<open>
  C2. In a store whose refresh token rows are keyed by their token (every store the
  server reaches is), a login whose body passes the schema, whose email is a user's
  and whose password \<open>bcrypt.compare\<close> accepts succeeds (200 with the user and an access
  token, the refresh token as cookie) and leaves exactly one refresh token row owned
  by that user: the row of the refresh token just issued. The rows the user owned
  before are gone, however many there were. A second such login of the same user, at
  any later time and from any request, succeeds in the same way and again leaves
  exactly one row of that user, the row of the second login's token.
\<close>

theorem login_single_refresh_token:
  assumes "tokensKeyed (refreshTokens st)"
    and "loginSchema_parse L (body req) = Inr d"
    and "fst (getUserByEmail L now (login_email d) st) = Some u"
    and "bcrypt_compare L (login_password d) (password u)"
  shows "fst (login_try L now req st) =
           Inr \<lparr>status = 200,
                json = AuthJson (toPublicUser u) (generateAccessToken L now (id' u)),
                cookies = [refreshCookie L (generateRefreshToken L now (id' u))]\<rparr> \<and>
         tokensOfUser (id' u) (snd (login_try L now req st)) =
           [\<lparr>rt_id = randomUUID L (entropy (ensureInitialized L now st)), rt_userId = id' u,
             rt_token = generateRefreshToken L now (id' u),
             rt_expiresAt = sevenDaysFrom L now, rt_createdAt = now\<rparr>] \<and>
         (\<forall>now2 req2 d2 u2.
            loginSchema_parse L (body req2) = Inr d2 \<and>
            fst (getUserByEmail L now2 (login_email d2) (snd (login_try L now req st))) = Some u2 \<and>
            bcrypt_compare L (login_password d2) (password u2) \<and> id' u2 = id' u \<longrightarrow>
            fst (login_try L now2 req2 (snd (login_try L now req st))) =
              Inr \<lparr>status = 200,
                   json = AuthJson (toPublicUser u2) (generateAccessToken L now2 (id' u)),
                   cookies = [refreshCookie L (generateRefreshToken L now2 (id' u))]\<rparr> \<and>
            tokensOfUser (id' u) (snd (login_try L now2 req2 (snd (login_try L now req st)))) =
              [\<lparr>rt_id = randomUUID L (entropy (ensureInitialized L now st) + 1), rt_userId = id' u,
                rt_token = generateRefreshToken L now2 (id' u),
                rt_expiresAt = sevenDaysFrom L now2, rt_createdAt = now2\<rparr>])"
proof (intro conjI allI impI)
  show "fst (login_try L now req st) =
           Inr \<lparr>status = 200,
                json = AuthJson (toPublicUser u) (generateAccessToken L now (id' u)),
                cookies = [refreshCookie L (generateRefreshToken L now (id' u))]\<rparr>"
    by (simp add: login_try_ok [OF assms(2-4)])
  show "tokensOfUser (id' u) (snd (login_try L now req st)) =
           [\<lparr>rt_id = randomUUID L (entropy (ensureInitialized L now st)), rt_userId = id' u,
             rt_token = generateRefreshToken L now (id' u),
             rt_expiresAt = sevenDaysFrom L now, rt_createdAt = now\<rparr>]"
    by (rule login_rows(1) [OF assms])
next
  fix now2 and req2 :: AuthRequest and d2 :: LoginInput and u2 :: User
  let ?st1 = "snd (login_try L now req st)"
  assume h: "loginSchema_parse L (body req2) = Inr d2 \<and>
            fst (getUserByEmail L now2 (login_email d2) ?st1) = Some u2 \<and>
            bcrypt_compare L (login_password d2) (password u2) \<and> id' u2 = id' u"
  note k = login_rows(2) [OF assms]
  have i: "ensureInitialized L now2 ?st1 = ?st1"
    using login_rows(4) [OF assms] by simp
  from h have p: "loginSchema_parse L (body req2) = Inr d2"
    and g: "fst (getUserByEmail L now2 (login_email d2) ?st1) = Some u2"
    and c: "bcrypt_compare L (login_password d2) (password u2)" and e: "id' u2 = id' u"
    by simp_all
  from login_try_ok [OF p g c] e
  show "fst (login_try L now2 req2 ?st1) =
              Inr \<lparr>status = 200,
                   json = AuthJson (toPublicUser u2) (generateAccessToken L now2 (id' u)),
                   cookies = [refreshCookie L (generateRefreshToken L now2 (id' u))]\<rparr>"
    by simp
  from login_rows(1) [OF k p g c] e i login_rows(3) [OF assms]
  show "tokensOfUser (id' u) (snd (login_try L now2 req2 ?st1)) =
              [\<lparr>rt_id = randomUUID L (entropy (ensureInitialized L now st) + 1), rt_userId = id' u,
                rt_token = generateRefreshToken L now2 (id' u),
                rt_expiresAt = sevenDaysFrom L now2, rt_createdAt = now2\<rparr>]"
    by simp
qed


theorem login_single_refresh_token_witness:
  "tokensOfUser ''b2'' storeTwo =
     [\<lparr>rt_id = ''r1'', rt_userId = ''b2'', rt_token = ''tokB'',
       rt_expiresAt = 604800010, rt_createdAt = 10\<rparr>,
      \<lparr>rt_id = ''r3'', rt_userId = ''b2'', rt_token = ''tokC'',
       rt_expiresAt = 604800020, rt_createdAt = 20\<rparr>] \<and>
   fst (login_try refLib 1000
      (request0\<lparr>body := [(''email'', ''bob@x.com''), (''password'', ''password123'')]\<rparr>)
      storeTwo) =
     Inr \<lparr>status = 200,
          json = AuthJson (toPublicUser memberUser0) (generateAccessToken refLib 1000 ''b2''),
          cookies = [refreshCookie refLib (generateRefreshToken refLib 1000 ''b2'')]\<rparr> \<and>
   tokensOfUser ''b2'' (snd (login_try refLib 1000
      (request0\<lparr>body := [(''email'', ''bob@x.com''), (''password'', ''password123'')]\<rparr>)
      storeTwo)) =
     [\<lparr>rt_id = ''uuid-5'', rt_userId = ''b2'',
       rt_token = generateRefreshToken refLib 1000 ''b2'',
       rt_expiresAt = 604801000, rt_createdAt = 1000\<rparr>] \<and>
   fst (login_try refLib 2000
      (request0\<lparr>body := [(''email'', ''bob@x.com''), (''password'', ''password123'')]\<rparr>)
      (snd (login_try refLib 1000
        (request0\<lparr>body := [(''email'', ''bob@x.com''), (''password'', ''password123'')]\<rparr>)
        storeTwo))) =
     Inr \<lparr>status = 200,
          json = AuthJson (toPublicUser memberUser0) (generateAccessToken refLib 2000 ''b2''),
          cookies = [refreshCookie refLib (generateRefreshToken refLib 2000 ''b2'')]\<rparr> \<and>
   tokensOfUser ''b2'' (snd (login_try refLib 2000
      (request0\<lparr>body := [(''email'', ''bob@x.com''), (''password'', ''password123'')]\<rparr>)
      (snd (login_try refLib 1000
        (request0\<lparr>body := [(''email'', ''bob@x.com''), (''password'', ''password123'')]\<rparr>)
        storeTwo)))) =
     [\<lparr>rt_id = ''uuid-6'', rt_userId = ''b2'',
       rt_token = generateRefreshToken refLib 2000 ''b2'',
       rt_expiresAt = 604802000, rt_createdAt = 2000\<rparr>]"
proof -
  let ?r = "request0\<lparr>body := [(''email'', ''bob@x.com''), (''password'', ''password123'')]\<rparr>"
  let ?d = "\<lparr>login_email = ''bob@x.com'', login_password = ''password123''\<rparr>"
  let ?st1 = "snd (login_try refLib 1000 ?r storeTwo)"
  have p: "loginSchema_parse refLib (body ?r) = Inr ?d"
    using refLib_parse_login(1) by simp
  have g: "fst (getUserByEmail refLib 1000 (login_email ?d) storeTwo) = Some memberUser0"
    using byEmail_bob [OF storeTwo_facts(2,3)] by simp
  have c: "bcrypt_compare refLib (login_password ?d) (password memberUser0)"
    using refLib_compare(1) by simp
  have m: "id' memberUser0 = ''b2''"
    by (simp add: memberUser0_def)
  have e: "entropy (ensureInitialized refLib 1000 storeTwo) = 5"
    using storeTwo_facts(2,4) by simp
  note T = login_single_refresh_token [OF storeTwo_facts(1) p g c]
  from T have a: "fst (login_try refLib 1000 ?r storeTwo) =
     Inr \<lparr>status = 200,
          json = AuthJson (toPublicUser memberUser0) (generateAccessToken refLib 1000 ''b2''),
          cookies = [refreshCookie refLib (generateRefreshToken refLib 1000 ''b2'')]\<rparr>"
    by (simp add: m)
  from T have b: "tokensOfUser ''b2'' ?st1 =
     [\<lparr>rt_id = ''uuid-5'', rt_userId = ''b2'',
       rt_token = generateRefreshToken refLib 1000 ''b2'',
       rt_expiresAt = 604801000, rt_createdAt = 1000\<rparr>]"
    by (simp add: m e refLib_uuid refLib_sevenDays)
  have g2: "fst (getUserByEmail refLib 2000 (login_email ?d) ?st1) = Some memberUser0"
    using byEmail_bob [OF login_rows(4) [OF storeTwo_facts(1) p g c], of 2000]
      login_rows(5) [OF storeTwo_facts(1) p g c] storeTwo_facts(2,3)
    by simp
  from T [THEN conjunct2, THEN conjunct2, rule_format, of ?r ?d 2000 memberUser0] p g2 c
  have s: "fst (login_try refLib 2000 ?r ?st1) =
     Inr \<lparr>status = 200,
          json = AuthJson (toPublicUser memberUser0) (generateAccessToken refLib 2000 ''b2''),
          cookies = [refreshCookie refLib (generateRefreshToken refLib 2000 ''b2'')]\<rparr> \<and>
     tokensOfUser ''b2'' (snd (login_try refLib 2000 ?r ?st1)) =
     [\<lparr>rt_id = ''uuid-6'', rt_userId = ''b2'',
       rt_token = generateRefreshToken refLib 2000 ''b2'',
       rt_expiresAt = 604802000, rt_createdAt = 2000\<rparr>]"
    by (simp add: m e refLib_uuid refLib_sevenDays)
  from storeTwo_facts(5) a b s show ?thesis by simp
qed

text \<open>
  C5. Of two login attempts that reach the two checks (their bodies pass the login
  schema), the first with an email no user has, the second with the email of a user
  and a password \<open>bcrypt.compare\<close> rejects, each gets the same response: status 401 with
  the message "Invalid email or password" and no cookie. Neither changes the store
  beyond its initialisation. A body the schema rejects is answered before either check
  runs, from the body alone: the response does not depend on the store.
\<close>

theorem login_failures_indistinguishable:
  assumes "loginSchema_parse L (body req1) = Inr d1"
    and "fst (getUserByEmail L now1 (login_email d1) st1) = None"
    and "loginSchema_parse L (body req2) = Inr d2"
    and "fst (getUserByEmail L now2 (login_email d2) st2) = Some u"
    and "\<not> bcrypt_compare L (login_password d2) (password u)"
  shows "fst (handled (login_try L now1 req1 st1)) = respond 401 ''Invalid email or password'' \<and>
         fst (handled (login_try L now2 req2 st2)) = respond 401 ''Invalid email or password'' \<and>
         snd (handled (login_try L now1 req1 st1)) = ensureInitialized L now1 st1 \<and>
         snd (handled (login_try L now2 req2 st2)) = ensureInitialized L now2 st2 \<and>
         (\<forall>err. loginSchema_parse L (body req) = Inl err \<longrightarrow>
            handled (login_try L now req st) = (errorHandler err, st))"
  using assms
  by (auto simp add: login_try_def handled_def errorHandler_def getUserByEmail_def Let_def
      split: option.splits)

theorem login_failures_indistinguishable_witness:
  "fst (handled (login_try refLib 1000
      (request0\<lparr>body := [(''email'', ''nobody@x.com''), (''password'', ''password123'')]\<rparr>) store0)) =
     respond 401 ''Invalid email or password'' \<and>
   fst (handled (login_try refLib 2000
      (request0\<lparr>body := [(''email'', ''bob@x.com''), (''password'', ''wrongpass'')]\<rparr>) store0)) =
     respond 401 ''Invalid email or password''"
proof -
  let ?r1 = "request0\<lparr>body := [(''email'', ''nobody@x.com''), (''password'', ''password123'')]\<rparr>"
  let ?r2 = "request0\<lparr>body := [(''email'', ''bob@x.com''), (''password'', ''wrongpass'')]\<rparr>"
  have p1: "loginSchema_parse refLib (body ?r1) =
      Inr \<lparr>login_email = ''nobody@x.com'', login_password = ''password123''\<rparr>"
    using refLib_parse_login(2) by simp
  have p2: "loginSchema_parse refLib (body ?r2) =
      Inr \<lparr>login_email = ''bob@x.com'', login_password = ''wrongpass''\<rparr>"
    using refLib_parse_login(1) by simp
  have e1: "fst (getUserByEmail refLib 1000
      (login_email \<lparr>login_email = ''nobody@x.com'', login_password = ''password123''\<rparr>) store0) = None"
    using store0_byEmail(3) by simp
  have e2: "fst (getUserByEmail refLib 2000
      (login_email \<lparr>login_email = ''bob@x.com'', login_password = ''wrongpass''\<rparr>) store0) =
      Some memberUser0"
    using store0_byEmail(2) by simp
  have c: "\<not> bcrypt_compare refLib
      (login_password \<lparr>login_email = ''bob@x.com'', login_password = ''wrongpass''\<rparr>)
      (password memberUser0)"
    using refLib_compare(2) by simp
  from login_failures_indistinguishable [OF p1 e1 p2 e2 c]
  show ?thesis by simp
qed

subsection \<open>Register\<close>

lemma find_None_list_ex: "(find P xs = None) = (\<not> list_ex P xs)"
  by (auto simp add: find_None_iff list_ex_iff)

lemma emailTaken_find:
  "emailTaken L e st =
     (find (\<lambda>user. toLowerCase L (email user) = toLowerCase L e) (Map_values (users st)) \<noteq> None)"
  by (simp add: emailTaken_def find_None_list_ex)

lemma usernameTaken_find:
  "usernameTaken L n st =
     (find (\<lambda>user. toLowerCase L (username user) = toLowerCase L n) (Map_values (users st)) \<noteq> None)"
  by (simp add: usernameTaken_def find_None_list_ex)

lemma registerSchema_parse_Inr:
  "registerSchema_parse L b = Inr d \<Longrightarrow>
     map_of b ''email'' = Some (reg_email d) \<and> map_of b ''username'' = Some (reg_username d)"
  by (auto simp add: registerSchema_parse_def Let_def split: option.splits if_splits)

lemma registerSchema_parse_Inl:
  "registerSchema_parse L b = Inl err \<Longrightarrow> \<exists>issues. err = ZodError issues"
  by (auto simp add: registerSchema_parse_def Let_def split: option.splits if_splits)

lemma register_try_cases:
  "register_try L now req st =
     (case registerSchema_parse L (body req) of
        Inl err \<Rightarrow> (Inl err, st)
      | Inr d \<Rightarrow>
          if emailTaken L (reg_email d) (ensureInitialized L now st)
          then (Inl (AppError 400 ''Email already registered''), ensureInitialized L now st)
          else if usernameTaken L (reg_username d) (ensureInitialized L now st)
          then (Inl (AppError 400 ''Username already taken''), ensureInitialized L now st)
          else
            (let st0 = ensureInitialized L now st;
                 u = \<lparr>id' = randomUUID L (entropy st0 + 1), email = reg_email d,
                      username = reg_username d, role = MEMBER, firstName = reg_firstName d,
                      lastName = reg_lastName d, createdAt = now,
                      password = bcrypt_hash L (reg_password d) 10 (entropy st0)\<rparr>;
                 refreshToken = generateRefreshToken L now (id' u)
             in (Inr \<lparr>status = 201,
                      json = AuthJson (toPublicUser u) (generateAccessToken L now (id' u)),
                      cookies = [refreshCookie L refreshToken]\<rparr>,
                 st0\<lparr>users := Map_set (id' u) u (users st0),
                     refreshTokens :=
                       Map_set refreshToken
                         \<lparr>rt_id = randomUUID L (entropy st0 + 2), rt_userId = id' u,
                          rt_token = refreshToken, rt_expiresAt = sevenDaysFrom L now,
                          rt_createdAt = now\<rparr> (refreshTokens st0),
                     entropy := entropy st0 + 3\<rparr>)))"
  by (auto simp add: register_try_def getUserByEmail_def getUserByUsername_def createUser_def
      createRefreshToken_def emailTaken_find usernameTaken_find
      Let_def split: sum.splits option.splits)

lemma store0_taken:
  "emailTaken refLib ''BOB@X.COM'' store0"
  "\<not> emailTaken refLib ''new@x.com'' store0"
  "usernameTaken refLib ''BOB'' store0"
  "\<not> emailTaken refLib ''a@x.com'' store0"
  "\<not> usernameTaken refLib ''alice'' store0"
  by (simp_all add: emailTaken_def usernameTaken_def store0_def Map_values_def refLib_def
      lowerChar_def adminUser0_def memberUser0_def)

lemma refLib_parse_register:
  "CHR ''@'' \<in> set e \<Longrightarrow> 3 \<le> length n \<Longrightarrow>
   registerSchema_parse refLib
     [(''email'', e), (''username'', n), (''password'', ''password123''),
      (''firstName'', f # fs), (''lastName'', l # ls)] =
   Inr \<lparr>reg_email = e, reg_username = n, reg_password = ''password123'',
        reg_firstName = f # fs, reg_lastName = l # ls\<rparr>"
  by (simp add: registerSchema_parse_def zString_def refLib_def)

lemma refLib_register_facts:
  "entropy store0 = 5"
  "randomUUID refLib 6 = ''uuid-6''"
  "randomUUID refLib 7 = ''uuid-7''"
  "env_NODE_ENV refLib = None"
  "date_addDays refLib 1000 7 = 604801000"
  "bcrypt_hash refLib ''password123'' 10 n = ''$2a$10$password123''"
  by (simp_all add: refLib_def store0_def decimal.simps digitChar_def)

text \<open>
  C7. Let \<open>st0\<close> be the store once initialised, and let two strings be equal ignoring
  case when \<open>toLowerCase\<close> maps them to the same string, as the store's lookups compare.
  A register request whose \<open>email\<close> field equals, ignoring case, the email of a user of
  \<open>st0\<close>, or whose \<open>username\<close> field equals, ignoring case, the username of one, is
  answered with status 400, and the store is left as it was or merely initialised: no
  user is created; when the body passes the schema the message is "Email already
  registered", or "Username already taken" when only the username is taken. A request
  that passes the schema with an email and a username no user of \<open>st0\<close> has creates
  exactly one user \<open>u\<close>, with role MEMBER and the request's email, username and names,
  stored under its id; the response is 201 with the user as a \<open>UserPublic\<close> (the type
  without the password field) and an access token for \<open>u\<close>; a refresh token row for \<open>u\<close>
  is stored under the refresh token, expiring seven calendar days after \<open>now\<close>
  (\<open>now + 604800000\<close> milliseconds when those seven days are 24 hours each), and the
  refresh token is set as the cookie \<open>refreshToken\<close>, HTTP-only, same-site lax, with a
  max-age of seven days.
\<close>

theorem register_outcomes:
  "((\<exists>e. map_of (body req) ''email'' = Some e \<and> emailTaken L e (ensureInitialized L now st)) \<or>
    (\<exists>n. map_of (body req) ''username'' = Some n \<and>
         usernameTaken L n (ensureInitialized L now st)) \<longrightarrow>
      status (fst (handled (register_try L now req st))) = 400 \<and>
      (snd (handled (register_try L now req st)) = st \<or>
       snd (handled (register_try L now req st)) = ensureInitialized L now st)) \<and>
   (\<forall>d. registerSchema_parse L (body req) = Inr d \<and>
        emailTaken L (reg_email d) (ensureInitialized L now st) \<longrightarrow>
      handled (register_try L now req st) =
        (respond 400 ''Email already registered'', ensureInitialized L now st)) \<and>
   (\<forall>d. registerSchema_parse L (body req) = Inr d \<and>
        \<not> emailTaken L (reg_email d) (ensureInitialized L now st) \<and>
        usernameTaken L (reg_username d) (ensureInitialized L now st) \<longrightarrow>
      handled (register_try L now req st) =
        (respond 400 ''Username already taken'', ensureInitialized L now st)) \<and>
   (\<forall>d. registerSchema_parse L (body req) = Inr d \<and>
        \<not> emailTaken L (reg_email d) (ensureInitialized L now st) \<and>
        \<not> usernameTaken L (reg_username d) (ensureInitialized L now st) \<longrightarrow>
      (\<exists>u row.
         fst (handled (register_try L now req st)) =
           \<lparr>status = 201,
            json = AuthJson (toPublicUser u) (generateAccessToken L now (id' u)),
            cookies = [SetCookie ''refreshToken'' (generateRefreshToken L now (id' u))
                        \<lparr>httpOnly = True, secure = (env_NODE_ENV L = Some ''production''),
                         sameSite = ''lax'', maxAge = 604800000\<rparr>]\<rparr> \<and>
         u = \<lparr>id' = randomUUID L (entropy (ensureInitialized L now st) + 1),
              email = reg_email d, username = reg_username d, role = MEMBER,
              firstName = reg_firstName d, lastName = reg_lastName d, createdAt = now,
              password = bcrypt_hash L (reg_password d) 10
                           (entropy (ensureInitialized L now st))\<rparr> \<and>
         row = \<lparr>rt_id = randomUUID L (entropy (ensureInitialized L now st) + 2),
                rt_userId = id' u, rt_token = generateRefreshToken L now (id' u),
                rt_expiresAt = date_addDays L now 7, rt_createdAt = now\<rparr> \<and>
         users (snd (handled (register_try L now req st))) =
           Map_set (id' u) u (users (ensureInitialized L now st)) \<and>
         Map_get (users (snd (handled (register_try L now req st)))) (id' u) = Some u \<and>
         refreshTokens (snd (handled (register_try L now req st))) =
           Map_set (generateRefreshToken L now (id' u)) row (refreshTokens st) \<and>
         Map_get (refreshTokens (snd (handled (register_try L now req st))))
           (generateRefreshToken L now (id' u)) = Some row \<and>
         (date_addDays L now 7 = now + 7 * (24 * 60 * 60 * 1000) \<longrightarrow>
            rt_expiresAt row = now + 604800000)))"
proof (intro conjI impI allI)
  assume h: "(\<exists>e. map_of (body req) ''email'' = Some e \<and> emailTaken L e (ensureInitialized L now st)) \<or>
    (\<exists>n. map_of (body req) ''username'' = Some n \<and> usernameTaken L n (ensureInitialized L now st))"
  show "status (fst (handled (register_try L now req st))) = 400"
  proof (cases "registerSchema_parse L (body req)")
    case (Inl err)
    with registerSchema_parse_Inl [OF Inl] show ?thesis
      by (auto simp add: register_try_cases handled_def errorHandler_def)
  next
    case (Inr d)
    with h registerSchema_parse_Inr [OF Inr] show ?thesis
      by (auto simp add: register_try_cases handled_def errorHandler_def respond_def)
  qed
  show "snd (handled (register_try L now req st)) = st \<or>
        snd (handled (register_try L now req st)) = ensureInitialized L now st"
  proof (cases "registerSchema_parse L (body req)")
    case (Inl err)
    then show ?thesis
      by (simp add: register_try_cases handled_def)
  next
    case (Inr d)
    with h registerSchema_parse_Inr [OF Inr] show ?thesis
      by (auto simp add: register_try_cases handled_def)
  qed
next
  fix d :: RegisterInput
  assume "registerSchema_parse L (body req) = Inr d \<and>
        emailTaken L (reg_email d) (ensureInitialized L now st)"
  then show "handled (register_try L now req st) =
        (respond 400 ''Email already registered'', ensureInitialized L now st)"
    by (simp add: register_try_cases handled_def errorHandler_def)
next
  fix d :: RegisterInput
  assume "registerSchema_parse L (body req) = Inr d \<and>
        \<not> emailTaken L (reg_email d) (ensureInitialized L now st) \<and>
        usernameTaken L (reg_username d) (ensureInitialized L now st)"
  then show "handled (register_try L now req st) =
        (respond 400 ''Username already taken'', ensureInitialized L now st)"
    by (simp add: register_try_cases handled_def errorHandler_def)
next
  fix d :: RegisterInput
  let ?st0 = "ensureInitialized L now st"
  let ?u = "\<lparr>id' = randomUUID L (entropy ?st0 + 1), email = reg_email d,
             username = reg_username d, role = MEMBER, firstName = reg_firstName d,
             lastName = reg_lastName d, createdAt = now,
             password = bcrypt_hash L (reg_password d) 10 (entropy ?st0)\<rparr>"
  let ?row = "\<lparr>rt_id = randomUUID L (entropy ?st0 + 2),
                rt_userId = id' ?u, rt_token = generateRefreshToken L now (id' ?u),
                rt_expiresAt = date_addDays L now 7, rt_createdAt = now\<rparr>"
  assume "registerSchema_parse L (body req) = Inr d \<and>
        \<not> emailTaken L (reg_email d) (ensureInitialized L now st) \<and>
        \<not> usernameTaken L (reg_username d) (ensureInitialized L now st)"
  then show "\<exists>u row.
         fst (handled (register_try L now req st)) =
           \<lparr>status = 201,
            json = AuthJson (toPublicUser u) (generateAccessToken L now (id' u)),
            cookies = [SetCookie ''refreshToken'' (generateRefreshToken L now (id' u))
                        \<lparr>httpOnly = True, secure = (env_NODE_ENV L = Some ''production''),
                         sameSite = ''lax'', maxAge = 604800000\<rparr>]\<rparr> \<and>
         u = \<lparr>id' = randomUUID L (entropy (ensureInitialized L now st) + 1),
              email = reg_email d, username = reg_username d, role = MEMBER,
              firstName = reg_firstName d, lastName = reg_lastName d, createdAt = now,
              password = bcrypt_hash L (reg_password d) 10
                           (entropy (ensureInitialized L now st))\<rparr> \<and>
         row = \<lparr>rt_id = randomUUID L (entropy (ensureInitialized L now st) + 2),
                rt_userId = id' u, rt_token = generateRefreshToken L now (id' u),
                rt_expiresAt = date_addDays L now 7, rt_createdAt = now\<rparr> \<and>
         users (snd (handled (register_try L now req st))) =
           Map_set (id' u) u (users (ensureInitialized L now st)) \<and>
         Map_get (users (snd (handled (register_try L now req st)))) (id' u) = Some u \<and>
         refreshTokens (snd (handled (register_try L now req st))) =
           Map_set (generateRefreshToken L now (id' u)) row (refreshTokens st) \<and>
         Map_get (refreshTokens (snd (handled (register_try L now req st))))
           (generateRefreshToken L now (id' u)) = Some row \<and>
         (date_addDays L now 7 = now + 7 * (24 * 60 * 60 * 1000) \<longrightarrow>
            rt_expiresAt row = now + 604800000)"
    by (intro exI [of _ ?u] exI [of _ ?row])
       (simp add: register_try_cases handled_def Let_def refreshCookie_def sevenDaysFrom_def)
qed


theorem register_outcomes_witness:
  "handled (register_try refLib 1000
      (request0\<lparr>body := [(''email'', ''BOB@X.COM''), (''username'', ''robert''),
                          (''password'', ''password123''), (''firstName'', ''R''),
                          (''lastName'', ''B'')]\<rparr>) store0) =
     (respond 400 ''Email already registered'', store0) \<and>
   handled (register_try refLib 1000
      (request0\<lparr>body := [(''email'', ''new@x.com''), (''username'', ''BOB''),
                          (''password'', ''password123''), (''firstName'', ''R''),
                          (''lastName'', ''B'')]\<rparr>) store0) =
     (respond 400 ''Username already taken'', store0) \<and>
   fst (handled (register_try refLib 1000
      (request0\<lparr>body := [(''email'', ''a@x.com''), (''username'', ''alice''),
                          (''password'', ''password123''), (''firstName'', ''A''),
                          (''lastName'', ''L'')]\<rparr>) store0)) =
     \<lparr>status = 201,
      json = AuthJson \<lparr>id' = ''uuid-6'', email = ''a@x.com'', username = ''alice'',
                       role = MEMBER, firstName = ''A'', lastName = ''L'', createdAt = 1000\<rparr>
               (generateAccessToken refLib 1000 ''uuid-6''),
      cookies = [SetCookie ''refreshToken'' (generateRefreshToken refLib 1000 ''uuid-6'')
                  \<lparr>httpOnly = True, secure = False, sameSite = ''lax'',
                   maxAge = 604800000\<rparr>]\<rparr> \<and>
   Map_get (users (snd (handled (register_try refLib 1000
      (request0\<lparr>body := [(''email'', ''a@x.com''), (''username'', ''alice''),
                          (''password'', ''password123''), (''firstName'', ''A''),
                          (''lastName'', ''L'')]\<rparr>) store0)))) ''uuid-6'' =
     Some \<lparr>id' = ''uuid-6'', email = ''a@x.com'', username = ''alice'', role = MEMBER,
           firstName = ''A'', lastName = ''L'', createdAt = 1000,
           password = ''$2a$10$password123''\<rparr> \<and>
   Map_get (refreshTokens (snd (handled (register_try refLib 1000
      (request0\<lparr>body := [(''email'', ''a@x.com''), (''username'', ''alice''),
                          (''password'', ''password123''), (''firstName'', ''A''),
                          (''lastName'', ''L'')]\<rparr>) store0))))
      (generateRefreshToken refLib 1000 ''uuid-6'') =
     Some \<lparr>rt_id = ''uuid-7'', rt_userId = ''uuid-6'',
           rt_token = generateRefreshToken refLib 1000 ''uuid-6'',
           rt_expiresAt = 604801000, rt_createdAt = 1000\<rparr>"
proof -
  let ?r1 = "request0\<lparr>body := [(''email'', ''BOB@X.COM''), (''username'', ''robert''),
                          (''password'', ''password123''), (''firstName'', ''R''),
                          (''lastName'', ''B'')]\<rparr>"
  let ?d1 = "\<lparr>reg_email = ''BOB@X.COM'', reg_username = ''robert'',
              reg_password = ''password123'', reg_firstName = ''R'', reg_lastName = ''B''\<rparr>"
  let ?r2 = "request0\<lparr>body := [(''email'', ''new@x.com''), (''username'', ''BOB''),
                          (''password'', ''password123''), (''firstName'', ''R''),
                          (''lastName'', ''B'')]\<rparr>"
  let ?d2 = "\<lparr>reg_email = ''new@x.com'', reg_username = ''BOB'',
              reg_password = ''password123'', reg_firstName = ''R'', reg_lastName = ''B''\<rparr>"
  let ?r3 = "request0\<lparr>body := [(''email'', ''a@x.com''), (''username'', ''alice''),
                          (''password'', ''password123''), (''firstName'', ''A''),
                          (''lastName'', ''L'')]\<rparr>"
  let ?d3 = "\<lparr>reg_email = ''a@x.com'', reg_username = ''alice'',
              reg_password = ''password123'', reg_firstName = ''A'', reg_lastName = ''L''\<rparr>"
  have "registerSchema_parse refLib (body ?r1) = Inr ?d1 \<and>
        emailTaken refLib (reg_email ?d1) (ensureInitialized refLib 1000 store0)"
    using store0_taken(1) by (simp add: refLib_parse_register)
  with register_outcomes [of ?r1 refLib 1000 store0]
  have "handled (register_try refLib 1000 ?r1 store0) =
     (respond 400 ''Email already registered'', ensureInitialized refLib 1000 store0)"
    by blast
  then have 1: "handled (register_try refLib 1000 ?r1 store0) =
     (respond 400 ''Email already registered'', store0)"
    by simp
  have "registerSchema_parse refLib (body ?r2) = Inr ?d2 \<and>
        \<not> emailTaken refLib (reg_email ?d2) (ensureInitialized refLib 1000 store0) \<and>
        usernameTaken refLib (reg_username ?d2) (ensureInitialized refLib 1000 store0)"
    using store0_taken(2,3) by (simp add: refLib_parse_register)
  with register_outcomes [of ?r2 refLib 1000 store0]
  have "handled (register_try refLib 1000 ?r2 store0) =
     (respond 400 ''Username already taken'', ensureInitialized refLib 1000 store0)"
    by blast
  then have 2: "handled (register_try refLib 1000 ?r2 store0) =
     (respond 400 ''Username already taken'', store0)"
    by simp
  have "registerSchema_parse refLib (body ?r3) = Inr ?d3 \<and>
        \<not> emailTaken refLib (reg_email ?d3) (ensureInitialized refLib 1000 store0) \<and>
        \<not> usernameTaken refLib (reg_username ?d3) (ensureInitialized refLib 1000 store0)"
    using store0_taken(4,5) by (simp add: refLib_parse_register)
  with register_outcomes [of ?r3 refLib 1000 store0]
  obtain u row where
    res: "fst (handled (register_try refLib 1000 ?r3 store0)) =
           \<lparr>status = 201,
            json = AuthJson (toPublicUser u) (generateAccessToken refLib 1000 (id' u)),
            cookies = [SetCookie ''refreshToken'' (generateRefreshToken refLib 1000 (id' u))
                        \<lparr>httpOnly = True, secure = (env_NODE_ENV refLib = Some ''production''),
                         sameSite = ''lax'', maxAge = 604800000\<rparr>]\<rparr>" and
    u: "u = \<lparr>id' = randomUUID refLib (entropy (ensureInitialized refLib 1000 store0) + 1),
              email = reg_email ?d3, username = reg_username ?d3, role = MEMBER,
              firstName = reg_firstName ?d3, lastName = reg_lastName ?d3, createdAt = 1000,
              password = bcrypt_hash refLib (reg_password ?d3) 10
                           (entropy (ensureInitialized refLib 1000 store0))\<rparr>" and
    row: "row = \<lparr>rt_id = randomUUID refLib (entropy (ensureInitialized refLib 1000 store0) + 2),
                rt_userId = id' u, rt_token = generateRefreshToken refLib 1000 (id' u),
                rt_expiresAt = date_addDays refLib 1000 7, rt_createdAt = 1000\<rparr>" and
    gu: "Map_get (users (snd (handled (register_try refLib 1000 ?r3 store0)))) (id' u) = Some u" and
    gr: "Map_get (refreshTokens (snd (handled (register_try refLib 1000 ?r3 store0))))
           (generateRefreshToken refLib 1000 (id' u)) = Some row"
    by blast
  from u have u': "u = \<lparr>id' = ''uuid-6'', email = ''a@x.com'', username = ''alice'', role = MEMBER,
           firstName = ''A'', lastName = ''L'', createdAt = 1000,
           password = ''$2a$10$password123''\<rparr>"
    by (simp add: refLib_register_facts)
  from row u' have row': "row = \<lparr>rt_id = ''uuid-7'', rt_userId = ''uuid-6'',
           rt_token = generateRefreshToken refLib 1000 ''uuid-6'',
           rt_expiresAt = 604801000, rt_createdAt = 1000\<rparr>"
    by (simp add: refLib_register_facts)
  from res gu gr u' row' have 3:
    "fst (handled (register_try refLib 1000 ?r3 store0)) =
     \<lparr>status = 201,
      json = AuthJson \<lparr>id' = ''uuid-6'', email = ''a@x.com'', username = ''alice'',
                       role = MEMBER, firstName = ''A'', lastName = ''L'', createdAt = 1000\<rparr>
               (generateAccessToken refLib 1000 ''uuid-6''),
      cookies = [SetCookie ''refreshToken'' (generateRefreshToken refLib 1000 ''uuid-6'')
                  \<lparr>httpOnly = True, secure = False, sameSite = ''lax'',
                   maxAge = 604800000\<rparr>]\<rparr> \<and>
     Map_get (users (snd (handled (register_try refLib 1000 ?r3 store0)))) ''uuid-6'' =
       Some \<lparr>id' = ''uuid-6'', email = ''a@x.com'', username = ''alice'', role = MEMBER,
           firstName = ''A'', lastName = ''L'', createdAt = 1000,
           password = ''$2a$10$password123''\<rparr> \<and>
     Map_get (refreshTokens (snd (handled (register_try refLib 1000 ?r3 store0))))
        (generateRefreshToken refLib 1000 ''uuid-6'') =
       Some \<lparr>rt_id = ''uuid-7'', rt_userId = ''uuid-6'',
           rt_token = generateRefreshToken refLib 1000 ''uuid-6'',
           rt_expiresAt = 604801000, rt_createdAt = 1000\<rparr>"
    by (simp add: toPublicUser_def refLib_register_facts(4))
  from 1 2 3 show ?thesis by simp
qed

subsection \<open>Rate limit\<close>

lemma limitedHandler_cases:
  "usesAuthLimiter route \<Longrightarrow>
     limitedHandler route \<in> {register_try, login_try, refresh_try}"
  by (cases route) (simp_all add: usesAuthLimiter_def limitedHandler_def)

lemma app_limitedHandler:
  "usesAuthLimiter route \<Longrightarrow>
     app L now route req srv = limited (limitedHandler route) L now req srv"
  by (cases route) (simp_all add: usesAuthLimiter_def limitedHandler_def app_def)

lemma limited_in_window:
  assumes "Map_get (limiter srv) (ip req) = Some (h, reset)" and "now < reset"
  shows "20 \<le> h \<Longrightarrow> limited handler L now req srv =
           (respond 429 ''Too many requests, please try again later'',
            srv\<lparr>limiter := Map_set (ip req) (h + 1, reset) (limiter srv)\<rparr>)"
    and "h < 20 \<Longrightarrow> limited handler L now req srv =
           (fst (handled (handler L now req (storage srv))),
            \<lparr>storage = snd (handled (handler L now req (storage srv))),
             limiter = Map_set (ip req) (h + 1, reset) (limiter srv)\<rparr>)"
  using assms
  by (simp_all add: limited_def rateLimit_def increment_def authLimiter_def split_beta)

lemma limited_new_window:
  assumes "Map_get (limiter srv) (ip req) = None \<or>
           (\<exists>h reset. Map_get (limiter srv) (ip req) = Some (h, reset) \<and> reset \<le> now)"
  shows "limited handler L now req srv =
           (fst (handled (handler L now req (storage srv))),
            \<lparr>storage = snd (handled (handler L now req (storage srv))),
             limiter = Map_set (ip req) (1, now + 15 * 60 * 1000) (limiter srv)\<rparr>)"
  using assms
  by (auto simp add: limited_def rateLimit_def increment_def authLimiter_def split_beta)

lemma limited_limiter:
  "\<exists>entry. limiter (snd (limited handler L now req srv)) = Map_set (ip req) entry (limiter srv)"
  by (auto simp add: limited_def rateLimit_def increment_def authLimiter_def split_beta
      split: option.splits prod.splits Outcome.splits)

lemma app_in_window:
  assumes "usesAuthLimiter route" and "Map_get (limiter srv) (ip req) = Some (h, reset)"
    and "now < reset"
  shows "20 \<le> h \<Longrightarrow> app L now route req srv =
           (respond 429 ''Too many requests, please try again later'',
            srv\<lparr>limiter := Map_set (ip req) (h + 1, reset) (limiter srv)\<rparr>)"
    and "h < 20 \<Longrightarrow> app L now route req srv =
           passedOn route L now req srv (Map_set (ip req) (h + 1, reset) (limiter srv))"
    and "Map_get (limiter (snd (app L now route req srv))) (ip req) = Some (h + 1, reset)"
proof -
  note a = app_limitedHandler [OF assms(1)]
  show 1: "20 \<le> h \<Longrightarrow> app L now route req srv =
           (respond 429 ''Too many requests, please try again later'',
            srv\<lparr>limiter := Map_set (ip req) (h + 1, reset) (limiter srv)\<rparr>)"
    by (simp add: a limited_in_window(1) [OF assms(2,3)])
  show 2: "h < 20 \<Longrightarrow> app L now route req srv =
           passedOn route L now req srv (Map_set (ip req) (h + 1, reset) (limiter srv))"
    by (simp add: a limited_in_window(2) [OF assms(2,3)] passedOn_def)
  show "Map_get (limiter (snd (app L now route req srv))) (ip req) = Some (h + 1, reset)"
  proof (cases "20 \<le> h")
    case True
    then show ?thesis by (simp add: 1)
  next
    case False
    then show ?thesis by (simp add: 2 passedOn_def)
  qed
qed

lemma app_new_window:
  assumes "usesAuthLimiter route"
    and "Map_get (limiter srv) (ip req) = None \<or>
         (\<exists>h reset. Map_get (limiter srv) (ip req) = Some (h, reset) \<and> reset \<le> now)"
  shows "app L now route req srv =
           passedOn route L now req srv
             (Map_set (ip req) (1, now + 15 * 60 * 1000) (limiter srv))"
  by (simp add: app_limitedHandler [OF assms(1)] limited_new_window [OF assms(2)] passedOn_def)

lemma unlimited_limiter:
  "\<not> usesAuthLimiter route \<Longrightarrow> limiter (snd (app L now route req srv)) = limiter srv"
  by (cases route)
     (simp_all add: usesAuthLimiter_def app_def split_beta split: prod.splits Outcome.splits)

lemma app_other_entry:
  assumes "\<not> (ip req = c \<and> usesAuthLimiter route)"
  shows "Map_get (limiter (snd (app L now route req srv))) c = Map_get (limiter srv) c"
proof (cases "usesAuthLimiter route")
  case False
  then show ?thesis by (simp add: unlimited_limiter)
next
  case True
  with assms have n: "c \<noteq> ip req" by auto
  from limited_limiter [of "limitedHandler route" L now req srv] obtain entry where
    "limiter (snd (limited (limitedHandler route) L now req srv)) =
       Map_set (ip req) entry (limiter srv)"
    by blast
  with n show ?thesis
    by (simp add: app_limitedHandler [OF True] Map_get_set_other)
qed

lemma serverAfter_entry:
  assumes "\<forall>ev\<in>set evs. ip (snd (snd ev)) = c \<and> usesAuthLimiter (fst (snd ev)) \<longrightarrow> fst ev < reset"
    and "Map_get (limiter srv) c = Some (h, reset)"
  shows "Map_get (limiter (serverAfter L evs srv)) c = Some (h + hitsOf c evs, reset)"
  using assms
proof (induction evs arbitrary: srv h)
  case Nil
  then show ?case by (simp add: hitsOf_def)
next
  case (Cons ev evs)
  obtain now route req where ev: "ev = (now, route, req)"
    by (cases ev) auto
  from Cons.prems(1) have rest: "\<forall>ev\<in>set evs. ip (snd (snd ev)) = c \<and>
      usesAuthLimiter (fst (snd ev)) \<longrightarrow> fst ev < reset"
    by simp
  show ?case
  proof (cases "ip req = c \<and> usesAuthLimiter route")
    case True
    with Cons.prems(1) ev have w: "now < reset" by simp
    from True Cons.prems(2) have m: "Map_get (limiter srv) (ip req) = Some (h, reset)"
      by simp
    from app_in_window(3) [OF _ m w, where route = route and L = L] True
    have "Map_get (limiter (snd (app L now route req srv))) c = Some (h + 1, reset)"
      by simp
    from Cons.IH [OF rest this] True ev show ?thesis
      by (simp add: hitsOf_def)
  next
    case False
    from app_other_entry [OF False, where L = L and now = now and srv = srv] Cons.prems(2)
    have "Map_get (limiter (snd (app L now route req srv))) c = Some (h, reset)"
      by simp
    from Cons.IH [OF rest this] False ev show ?thesis
      by (auto simp add: hitsOf_def)
  qed
qed

lemma serve_nth:
  "i < length evs \<Longrightarrow> evs ! i = (now, route, req) \<Longrightarrow>
     serve L evs srv ! i = fst (app L now route req (serverAfter L (take i evs) srv))"
proof (induction evs arbitrary: i srv)
  case Nil
  then show ?case by simp
next
  case (Cons ev evs)
  obtain now0 route0 req0 where ev: "ev = (now0, route0, req0)"
    by (cases ev) auto
  show ?case
  proof (cases i)
    case 0
    with Cons.prems ev show ?thesis
      by (simp add: split_beta)
  next
    case (Suc j)
    with Cons.prems Cons.IH [where i = j and srv = "snd (app L now0 route0 req0 srv)"] ev
    show ?thesis
      by (simp add: split_beta)
  qed
qed


lemma loginSchema_parse_Inl:
  "loginSchema_parse L b = Inl err \<Longrightarrow> \<exists>issues. err = ZodError issues"
  by (auto simp add: loginSchema_parse_def Let_def split: option.splits if_splits)

lemma register_status:
  "status (fst (handled (register_try L now req st))) \<noteq> 429"
proof (cases "registerSchema_parse L (body req)")
  case (Inl err)
  with registerSchema_parse_Inl [OF Inl] show ?thesis
    by (auto simp add: register_try_cases handled_def errorHandler_def)
next
  case (Inr d)
  then show ?thesis
    by (simp add: register_try_cases handled_def errorHandler_def respond_def Let_def)
qed

lemma login_status:
  "status (fst (handled (login_try L now req st))) \<noteq> 429"
proof (cases "loginSchema_parse L (body req)")
  case (Inl err)
  with loginSchema_parse_Inl [OF Inl] show ?thesis
    by (auto simp add: login_try_def handled_def errorHandler_def)
next
  case (Inr d)
  then show ?thesis
    by (simp add: login_try_def handled_def errorHandler_def respond_def Let_def split_beta
        split: option.splits prod.splits)
qed

lemma refresh_status:
  "status (fst (handled (refresh_try L now req st))) \<noteq> 429"
  by (simp add: refresh_try_cases handled_def errorHandler_def respond_def
      split: option.splits sum.splits)

lemma handler_status:
  "usesAuthLimiter route \<Longrightarrow>
     status (fst (handled (limitedHandler route L now req st))) \<noteq> 429"
  using limitedHandler_cases [of route] register_status login_status refresh_status by auto

lemma logout_ignores_limiter:
  "fst (app L now POST_auth_logout req (srv\<lparr>limiter := lim\<rparr>)) =
     fst (app L now POST_auth_logout req srv) \<and>
   limiter (snd (app L now POST_auth_logout req srv)) = limiter srv"
  by (simp add: app_def split_beta split: prod.splits Outcome.splits)

lemma serverWith_entry:
  "Map_get (limiter (serverWith h reset)) ''10.0.0.7'' = Some (h, reset)"
  "ip request0 = ''10.0.0.7''"
  "storage (serverWith h reset) = store0"
  "cookies_refreshToken request0 = None"
  by (simp_all add: serverWith_def Map_get_def request0_def)

lemma refresh0_in_window:
  "now < reset \<Longrightarrow> h < 20 \<Longrightarrow>
     app refLib now POST_auth_refresh request0 (serverWith h reset) =
       (respond 401 ''No refresh token provided'', serverWith (h + 1) reset)"
  using app_in_window(2) [of POST_auth_refresh "serverWith h reset" request0 h reset now refLib]
  by (simp add: usesAuthLimiter_def serverWith_entry passedOn_def limitedHandler_def
      refresh_try_cases handled_def errorHandler_def)
     (simp add: serverWith_def request0_def)

lemma refresh0_new_window:
  "reset \<le> now \<Longrightarrow>
     app refLib now POST_auth_refresh request0 (serverWith h reset) =
       (respond 401 ''No refresh token provided'', serverWith 1 (now + 900000))"
  using app_new_window [of POST_auth_refresh "serverWith h reset" request0 now refLib]
  by (simp add: usesAuthLimiter_def serverWith_entry passedOn_def limitedHandler_def
      refresh_try_cases handled_def errorHandler_def)
     (simp add: serverWith_def request0_def)

lemma refresh0_first:
  "app refLib now POST_auth_refresh request0 \<lparr>storage = store0, limiter = []\<rparr> =
       (respond 401 ''No refresh token provided'', serverWith 1 (now + 900000))"
  using app_new_window [of POST_auth_refresh "\<lparr>storage = store0, limiter = []\<rparr>" request0 now refLib]
  by (simp add: usesAuthLimiter_def passedOn_def limitedHandler_def Map_get_def
      refresh_try_cases handled_def errorHandler_def serverWith_entry(4))
     (simp add: serverWith_def request0_def)

lemma burst_in_window:
  "now < reset \<Longrightarrow> h + n \<le> 20 \<Longrightarrow>
     serve refLib (replicate n (now, POST_auth_refresh, request0) @ rest) (serverWith h reset) =
       replicate n (respond 401 ''No refresh token provided'') @
       serve refLib rest (serverWith (h + n) reset)"
proof (induction n arbitrary: h)
  case 0
  then show ?case by simp
next
  case (Suc n)
  from Suc.prems have "h < 20" and "Suc h + n \<le> 20" by simp_all
  with Suc.IH [of "Suc h"] Suc.prems(1) show ?case
    by (simp add: refresh0_in_window)
qed

text \<open>
  C9, as the code has it. The routes behind \<open>authLimiter\<close> are register, login and
  refresh; they share its one count per client, the client being the request's
  address. Take any run of the server, with requests of any clients to any routes, in
  which a client has a running window with \<open>h\<close> hits counted and sends its requests to
  these three routes before the window's reset time. For each such request of the
  client, let \<open>k\<close> be \<open>h\<close> plus the number of its earlier such requests in the run. When
  \<open>k < 20\<close> the request is passed on: the response is its handler's, on the store as the
  run has left it, and the count becomes \<open>k + 1\<close>. When \<open>20 \<le> k\<close> it is answered 429 with
  the message "Too many requests, please try again later", the handler does not run
  and the store is untouched. A request arriving when its client has no window, or at
  or after the reset time, is passed on and opens a window of 15 minutes with count
  one. So of the requests of a client in one window, the first 20 are passed on and the
  21st and later are rejected. Logout is not behind the limiter: its response does not
  depend on the limiter's counts and it leaves them unchanged.
\<close>

theorem auth_rate_limit:
  assumes "\<forall>ev\<in>set evs. ip (snd (snd ev)) = client \<and> usesAuthLimiter (fst (snd ev)) \<longrightarrow>
             fst ev < reset"
    and "Map_get (limiter srv) client = Some (h, reset)"
    and "i < length evs" and "evs ! i = (now, route, req)"
    and "ip req = client" and "usesAuthLimiter route"
  shows "(20 \<le> h + hitsOf client (take i evs) \<longrightarrow>
            serve L evs srv ! i = respond 429 ''Too many requests, please try again later'' \<and>
            app L now route req (serverAfter L (take i evs) srv) =
              (respond 429 ''Too many requests, please try again later'',
               (serverAfter L (take i evs) srv)
                 \<lparr>limiter := Map_set client (h + hitsOf client (take i evs) + 1, reset)
                               (limiter (serverAfter L (take i evs) srv))\<rparr>)) \<and>
         (h + hitsOf client (take i evs) < 20 \<longrightarrow>
            serve L evs srv ! i =
              fst (handled (limitedHandler route L now req
                              (storage (serverAfter L (take i evs) srv)))) \<and>
            status (serve L evs srv ! i) \<noteq> 429 \<and>
            app L now route req (serverAfter L (take i evs) srv) =
              passedOn route L now req (serverAfter L (take i evs) srv)
                (Map_set client (h + hitsOf client (take i evs) + 1, reset)
                   (limiter (serverAfter L (take i evs) srv)))) \<and>
         (usesAuthLimiter route0 \<and>
            (Map_get (limiter srv0) (ip req0) = None \<or>
             (\<exists>h0 reset0. Map_get (limiter srv0) (ip req0) = Some (h0, reset0) \<and>
                reset0 \<le> now0)) \<longrightarrow>
            app L now0 route0 req0 srv0 =
              passedOn route0 L now0 req0 srv0
                (Map_set (ip req0) (1, now0 + 15 * 60 * 1000) (limiter srv0))) \<and>
         usesAuthLimiter route0 =
           (route0 = POST_auth_register \<or> route0 = POST_auth_login \<or>
            route0 = POST_auth_refresh) \<and>
         limitedHandler POST_auth_register = register_try \<and>
         limitedHandler POST_auth_login = login_try \<and>
         limitedHandler POST_auth_refresh = refresh_try \<and>
         fst (app L now0 POST_auth_logout req0 (srv0\<lparr>limiter := lim\<rparr>)) =
           fst (app L now0 POST_auth_logout req0 srv0) \<and>
         limiter (snd (app L now0 POST_auth_logout req0 srv0)) = limiter srv0"
proof -
  let ?srv = "serverAfter L (take i evs) srv"
  let ?k = "h + hitsOf client (take i evs)"
  from assms(1) have "\<forall>ev\<in>set (take i evs). ip (snd (snd ev)) = client \<and>
      usesAuthLimiter (fst (snd ev)) \<longrightarrow> fst ev < reset"
    by (meson in_set_takeD)
  from serverAfter_entry [OF this assms(2), of L] assms(5)
  have m: "Map_get (limiter ?srv) (ip req) = Some (?k, reset)"
    by simp
  from assms(1,3,4,5,6) have w: "now < reset"
    by (metis fst_conv nth_mem snd_conv)
  note s = serve_nth [OF assms(3,4), of L srv]
  note a = app_in_window(1,2) [OF assms(6) m w, of L]
  have 1: "serve L evs srv ! i = respond 429 ''Too many requests, please try again later'' \<and>
           app L now route req ?srv =
             (respond 429 ''Too many requests, please try again later'',
              ?srv\<lparr>limiter := Map_set client (?k + 1, reset) (limiter ?srv)\<rparr>)"
    if "20 \<le> ?k"
    using a(1) [OF that] s assms(5) by simp
  have 2: "serve L evs srv ! i = fst (handled (limitedHandler route L now req (storage ?srv))) \<and>
           status (serve L evs srv ! i) \<noteq> 429 \<and>
           app L now route req ?srv =
             passedOn route L now req ?srv (Map_set client (?k + 1, reset) (limiter ?srv))"
    if "?k < 20"
    using a(2) [OF that] s assms(5) handler_status [OF assms(6), of L now req "storage ?srv"]
    by (simp add: passedOn_def)
  have 3: "app L now0 route0 req0 srv0 =
              passedOn route0 L now0 req0 srv0
                (Map_set (ip req0) (1, now0 + 15 * 60 * 1000) (limiter srv0))"
    if "usesAuthLimiter route0 \<and>
            (Map_get (limiter srv0) (ip req0) = None \<or>
             (\<exists>h0 reset0. Map_get (limiter srv0) (ip req0) = Some (h0, reset0) \<and>
                reset0 \<le> now0))"
    using that app_new_window [of route0 srv0 req0 now0 L] by blast
  have 4: "usesAuthLimiter route0 =
      (route0 = POST_auth_register \<or> route0 = POST_auth_login \<or> route0 = POST_auth_refresh)"
    by (cases route0) (simp_all add: usesAuthLimiter_def)
  have 5: "limitedHandler POST_auth_register = register_try \<and>
           limitedHandler POST_auth_login = login_try \<and>
           limitedHandler POST_auth_refresh = refresh_try"
    by (simp add: limitedHandler_def)
  from 1 2 3 4 5 logout_ignores_limiter [where L = L and now = now0 and req = req0
      and srv = srv0 and lim = lim]
  show ?thesis by blast
qed


theorem auth_rate_limit_witness:
  "serve refLib
      [(1000, POST_auth_refresh, request0),
       (1500, POST_auth_login, request0\<lparr>ip := ''10.0.0.8''\<rparr>),
       (1600, POST_auth_logout, request0),
       (2000, POST_auth_refresh, request0)] (serverWith 19 900000) ! 0 =
     respond 401 ''No refresh token provided'' \<and>
   serve refLib
      [(1000, POST_auth_refresh, request0),
       (1500, POST_auth_login, request0\<lparr>ip := ''10.0.0.8''\<rparr>),
       (1600, POST_auth_logout, request0),
       (2000, POST_auth_refresh, request0)] (serverWith 19 900000) ! 3 =
     respond 429 ''Too many requests, please try again later''"
proof -
  let ?evs = "[(1000::nat, POST_auth_refresh, request0),
       (1500, POST_auth_login, request0\<lparr>ip := ''10.0.0.8''\<rparr>),
       (1600, POST_auth_logout, request0),
       (2000, POST_auth_refresh, request0)]"
  have w: "\<forall>ev\<in>set ?evs. ip (snd (snd ev)) = ''10.0.0.7'' \<and> usesAuthLimiter (fst (snd ev)) \<longrightarrow>
             fst ev < 900000"
    by simp
  have u: "usesAuthLimiter POST_auth_refresh"
    by (simp add: usesAuthLimiter_def)
  have l: "(0::nat) < length ?evs" "(3::nat) < length ?evs"
    by simp_all
  have e: "?evs ! 0 = (1000, POST_auth_refresh, request0)"
          "?evs ! 3 = (2000, POST_auth_refresh, request0)"
    by simp_all
  have k: "19 + hitsOf ''10.0.0.7'' (take 0 ?evs) < 20"
          "20 \<le> 19 + hitsOf ''10.0.0.7'' (take 3 ?evs)"
    by (simp_all add: hitsOf_def usesAuthLimiter_def serverWith_entry(2))
  have r: "fst (handled (refresh_try refLib 1000 request0 store0)) =
      respond 401 ''No refresh token provided''"
    by (simp add: refresh_try_cases handled_def errorHandler_def serverWith_entry(4))
  note T0 = auth_rate_limit [OF w serverWith_entry(1) [of 19 900000] l(1) e(1)
      serverWith_entry(2) u, where L = refLib]
  from T0 k(1) have "serve refLib ?evs (serverWith 19 900000) ! 0 =
      fst (handled (limitedHandler POST_auth_refresh refLib 1000 request0
             (storage (serverAfter refLib (take 0 ?evs) (serverWith 19 900000)))))"
    by blast
  then have 0: "serve refLib ?evs (serverWith 19 900000) ! 0 =
     respond 401 ''No refresh token provided''"
    by (simp only: take_0 serverAfter.simps serverWith_entry(3) limitedHandler_def
        Route.case r)
  note T3 = auth_rate_limit [OF w serverWith_entry(1) [of 19 900000] l(2) e(2)
      serverWith_entry(2) u, where L = refLib]
  from T3 k(2)
  have 3: "serve refLib ?evs (serverWith 19 900000) ! 3 =
     respond 429 ''Too many requests, please try again later''"
    by blast
  from 0 3 show ?thesis by simp
qed

text \<open>
  C9 as stated fails twice. First for logout: with 20 hits of the client counted in the
  running window, the client's next request is its 21st; sent to the logout route with a
  valid bearer token it is processed (200 "Logged out successfully"), sent to the login
  route it is rejected with 429. Second for "any 15-minute window": the limiter counts in
  fixed windows. A client opens a window at time 0, sends 19 more requests at time
  899999 and 20 at time 900000, when a new window opens: all 40 are passed on (the
  refresh handler answers 401, no cookie being sent), 39 of them within one millisecond.
\<close>

theorem rate_limit_counterexample:
  "fst (app refLib 1000 POST_auth_logout
          (request0\<lparr>headers_authorization :=
             Some (''Bearer '' @ generateAccessToken refLib 0 ''b2'')\<rparr>) (serverWith 20 900000)) =
     \<lparr>status = 200, json = MessageJson ''Logged out successfully'',
      cookies = [ClearCookie ''refreshToken'']\<rparr> \<and>
   fst (app refLib 1000 POST_auth_login
          (request0\<lparr>headers_authorization :=
             Some (''Bearer '' @ generateAccessToken refLib 0 ''b2'')\<rparr>) (serverWith 20 900000)) =
     respond 429 ''Too many requests, please try again later'' \<and>
   map status (serve refLib
      ((0, POST_auth_refresh, request0) #
       replicate 19 (899999, POST_auth_refresh, request0) @
       (900000, POST_auth_refresh, request0) #
       replicate 19 (900000, POST_auth_refresh, request0))
      \<lparr>storage = store0, limiter = []\<rparr>) =
     401 # replicate 19 401 @ 401 # replicate 19 401"
proof -
  let ?r = "request0\<lparr>headers_authorization :=
             Some (''Bearer '' @ generateAccessToken refLib 0 ''b2'')\<rparr>"
  have v: "verifyToken refLib 1000 (generateAccessToken refLib 0 ''b2'') =
      Some \<lparr>userId = ''b2'', tokenType = None, iat = 0, expiry = 900\<rparr>"
    using refLib_verify_access [of "''b2''"] by (simp add: verifyToken_def)
  have a: "authenticate refLib 1000 ?r store0 =
      (Next (?r\<lparr>user := Some (toPublicUser memberUser0)\<rparr>), store0)"
    using store0_getUser(2) [of refLib 1000] by (simp add: authenticate_cases v)
  have out: "fst (app refLib 1000 POST_auth_logout ?r (serverWith 20 900000)) =
     \<lparr>status = 200, json = MessageJson ''Logged out successfully'',
      cookies = [ClearCookie ''refreshToken'']\<rparr>"
    using a
    by (simp add: app_def serverWith_entry(3) logout_try_def handled_def serverWith_entry(4)
        Let_def)
  have i: "ip ?r = ''10.0.0.7''" by (simp add: serverWith_entry(2))
  have "usesAuthLimiter POST_auth_login" by (simp add: usesAuthLimiter_def)
  from app_in_window(1) [OF this, of "serverWith 20 900000" ?r 20 900000 1000 refLib] i
  have lim: "fst (app refLib 1000 POST_auth_login ?r (serverWith 20 900000)) =
     respond 429 ''Too many requests, please try again later''"
    by (simp add: serverWith_entry(1))
  have b1: "serve refLib (replicate 19 (899999, POST_auth_refresh, request0) @ rest)
              (serverWith (Suc 0) 900000) =
            replicate 19 (respond 401 ''No refresh token provided'') @
            serve refLib rest (serverWith 20 900000)" for rest
    using burst_in_window [of 899999 900000 "Suc 0" 19 rest] by simp
  have b2: "serve refLib (replicate 19 (900000, POST_auth_refresh, request0))
              (serverWith (Suc 0) 1800000) =
            replicate 19 (respond 401 ''No refresh token provided'')"
    using burst_in_window [of 900000 1800000 "Suc 0" 19 "[]"] by simp
  have burst: "map status (serve refLib
      ((0, POST_auth_refresh, request0) #
       replicate 19 (899999, POST_auth_refresh, request0) @
       (900000, POST_auth_refresh, request0) #
       replicate 19 (900000, POST_auth_refresh, request0))
      \<lparr>storage = store0, limiter = []\<rparr>) =
     401 # replicate 19 401 @ 401 # replicate 19 401"
    by (simp add: refresh0_first b1 refresh0_new_window b2 respond_def)
  from out lim burst show ?thesis by simp
qed

subsection \<open>The store's invariant\<close>

text \<open>
  The refresh token rows of the empty store are keyed by their token, and every route
  keeps them so: the hypothesis of the login and deletion theorems holds of every store
  the server reaches.
\<close>

lemma newMemStorage_tokensKeyed: "tokensKeyed (refreshTokens newMemStorage)"
  by (simp add: newMemStorage_def tokensKeyed_def)

lemma authenticate_tokens [simp]:
  "refreshTokens (snd (authenticate L now req st)) = refreshTokens st"
  by (simp add: authenticate_cases split: option.splits)

lemma register_keeps_tokensKeyed:
  "tokensKeyed (refreshTokens st) \<Longrightarrow> tokensKeyed (refreshTokens (snd (register_try L now req st)))"
  by (simp add: register_try_cases Let_def tokensKeyed_set split: sum.splits)

lemma login_keeps_tokensKeyed:
  "tokensKeyed (refreshTokens st) \<Longrightarrow> tokensKeyed (refreshTokens (snd (login_try L now req st)))"
  by (auto simp add: login_try_def getUserByEmail_def deleteRefreshTokensByUser_def
      createRefreshToken_def Let_def tokensKeyed_set tokensKeyed_deleteEach
      split: sum.splits option.splits)

lemma refresh_keeps_tokensKeyed:
  "tokensKeyed (refreshTokens st) \<Longrightarrow> tokensKeyed (refreshTokens (snd (refresh_try L now req st)))"
  by (simp add: refresh_try_cases tokensKeyed_delete split: option.splits sum.splits)

lemma logout_keeps_tokensKeyed:
  "tokensKeyed (refreshTokens st) \<Longrightarrow> tokensKeyed (refreshTokens (snd (logout_try L now req st)))"
  by (auto simp add: logout_try_def deleteRefreshToken_def deleteRefreshTokensByUser_def Let_def
      split_beta tokensKeyed_delete tokensKeyed_deleteEach split: option.splits)

lemma deleteUser_keeps_tokensKeyed:
  "tokensKeyed (refreshTokens st) \<Longrightarrow> tokensKeyed (refreshTokens (snd (deleteUser_try L now req st)))"
  by (auto simp add: deleteUser_try_def deleteUser_def deleteRefreshTokensByUser_def Let_def
      split_beta tokensKeyed_deleteEach split: bool.splits)

lemma handled_snd [simp]: "snd (handled r) = snd r"
  by (simp add: handled_def split: sum.splits)

lemma limited_keeps_tokensKeyed:
  assumes "\<And>st. tokensKeyed (refreshTokens st) \<Longrightarrow>
             tokensKeyed (refreshTokens (snd (handler L now req st)))"
    and "tokensKeyed (refreshTokens (storage srv))"
  shows "tokensKeyed (refreshTokens (storage (snd (limited handler L now req srv))))"
  using assms
  by (simp add: limited_def rateLimit_def split_beta split: prod.splits Outcome.splits)

lemma app_keeps_tokensKeyed:
  assumes "tokensKeyed (refreshTokens (storage srv))"
  shows "tokensKeyed (refreshTokens (storage (snd (app L now route req srv))))"
proof (cases route)
  case POST_auth_register
  with assms show ?thesis
    by (simp add: app_def limited_keeps_tokensKeyed register_keeps_tokensKeyed)
next
  case POST_auth_login
  with assms show ?thesis
    by (simp add: app_def limited_keeps_tokensKeyed login_keeps_tokensKeyed)
next
  case POST_auth_refresh
  with assms show ?thesis
    by (simp add: app_def limited_keeps_tokensKeyed refresh_keeps_tokensKeyed)
next
  case POST_auth_logout
  from assms have "tokensKeyed (refreshTokens (snd (authenticate L now req (storage srv))))"
    by simp
  from logout_keeps_tokensKeyed [OF this] POST_auth_logout assms show ?thesis
    by (simp add: app_def split_beta split: prod.splits Outcome.splits)
next
  case GET_auth_me
  from assms have "tokensKeyed (refreshTokens (snd (authenticate L now req (storage srv))))"
    by simp
  with GET_auth_me show ?thesis
    by (simp add: app_def split_beta split: prod.splits Outcome.splits)
next
  case DELETE_users_id
  from assms have "tokensKeyed (refreshTokens (snd (authenticate L now req (storage srv))))"
    by simp
  from deleteUser_keeps_tokensKeyed [OF this] DELETE_users_id assms show ?thesis
    by (simp add: app_def split_beta split: prod.splits Outcome.splits)
qed

end
